theory Spec2Isabelle
  imports Complex_Main
begin

section \<open>Strings and numbers of the host language\<close>

text \<open>
  A string is a list of characters. The white space removed by \<^verbatim>\<open>String.prototype.trim\<close>
  and skipped by \<^verbatim>\<open>parseFloat\<close> is modelled on its ASCII part: TAB, LF, VT, FF, CR and
  SPACE. The white space beyond ASCII (the no-break space and the other Unicode spaces) is
  not removed by the model.
\<close>

definition isWhiteSpace :: "char \<Rightarrow> bool" where
  "isWhiteSpace c = (c \<in> set [CHR 0x09, CHR 0x0A, CHR 0x0B, CHR 0x0C, CHR 0x0D, CHR 0x20])"

definition trim :: "string \<Rightarrow> string" where
  "trim s = rev (dropWhile isWhiteSpace (rev (dropWhile isWhiteSpace s)))"

text \<open>\<^verbatim>\<open>text.split("-")\<close>: the fields between the occurrences of the separator; always at
  least one field.\<close>

fun split_on :: "char \<Rightarrow> string \<Rightarrow> string list" where
  "split_on sep [] = [[]]"
| "split_on sep (c # cs) =
     (if c = sep then [] # split_on sep cs
      else (case split_on sep cs of
              [] \<Rightarrow> [[c]]
            | p # ps \<Rightarrow> (c # p) # ps))"

text \<open>
  A number is NaN, an infinity or a finite value. A finite value is kept as the exact
  rational it denotes; the rounding of a decimal literal to a double and the overflow of
  a large exponent to infinity are outside the model, so the model is exact wherever the
  literal denotes a double (every integer below \<open>2 ^ 53\<close> in particular). Negative zero
  is identified with zero, from which \<^verbatim>\<open>===\<close>, \<^verbatim>\<open><\<close> and \<^verbatim>\<open>!\<close> cannot tell it apart.
\<close>

datatype number = NaN | NegInfinity | Finite rat | PosInfinity

text \<open>\<^verbatim>\<open>!x\<close> on a number: true for NaN and for zero.\<close>

definition falsy :: "number \<Rightarrow> bool" where
  "falsy x = (x = NaN \<or> x = Finite 0)"

text \<open>\<^verbatim>\<open>x === y\<close> on numbers: NaN equals nothing.\<close>

definition strict_eq :: "number \<Rightarrow> number \<Rightarrow> bool" where
  "strict_eq x y = (x \<noteq> NaN \<and> y \<noteq> NaN \<and> x = y)"

text \<open>\<^verbatim>\<open>x < y\<close> on numbers: false as soon as one side is NaN.\<close>

fun js_less :: "number \<Rightarrow> number \<Rightarrow> bool" where
  "js_less NaN _ = False"
| "js_less _ NaN = False"
| "js_less (Finite a) (Finite b) = (a < b)"
| "js_less NegInfinity NegInfinity = False"
| "js_less NegInfinity _ = True"
| "js_less _ NegInfinity = False"
| "js_less PosInfinity _ = False"
| "js_less _ PosInfinity = True"

definition isDigit :: "char \<Rightarrow> bool" where
  "isDigit c = (c \<in> set ''0123456789'')"

definition digitVal :: "char \<Rightarrow> nat" where
  "digitVal c = of_char c - 48"

definition digitsVal :: "string \<Rightarrow> nat" where
  "digitsVal ds = foldl (\<lambda>a c. 10 * a + digitVal c) 0 ds"

text \<open>An optional sign in front of a literal: whether it is a minus, and the rest.\<close>

fun strSign :: "string \<Rightarrow> bool \<times> string" where
  "strSign [] = (False, [])"
| "strSign (c # cs) =
     (if c = CHR ''-'' then (True, cs)
      else if c = CHR ''+'' then (False, cs)
      else (False, c # cs))"

text \<open>The value of an exponent part (\<open>e\<close> or \<open>E\<close>, an optional sign, at least one digit) at
  the head of the string; \<open>0\<close> when there is none.\<close>

definition exponentPart :: "string \<Rightarrow> int" where
  "exponentPart s =
     (case s of
        [] \<Rightarrow> 0
      | c # r \<Rightarrow>
          if c = CHR ''e'' \<or> c = CHR ''E'' then
            (let (neg, r') = strSign r; ds = takeWhile isDigit r'
             in if ds = [] then 0
                else if neg then - int (digitsVal ds) else int (digitsVal ds))
          else 0)"

definition scale10 :: "rat \<Rightarrow> int \<Rightarrow> rat" where
  "scale10 x e = (if 0 \<le> e then x * 10 ^ nat e else x / 10 ^ nat (- e))"

text \<open>
  \<^verbatim>\<open>parseFloat\<close>: leading white space is skipped, then the longest prefix that is a decimal
  literal (a sign, then \<^verbatim>\<open>Infinity\<close> or digits with an optional fraction and exponent)
  is read; NaN when no prefix is one.
\<close>

definition parseFloat :: "string \<Rightarrow> number" where
  "parseFloat s =
     (let (neg, u) = strSign (dropWhile isWhiteSpace s)
      in if take 8 u = ''Infinity'' then (if neg then NegInfinity else PosInfinity)
         else
           (let ip = takeWhile isDigit u;
                r1 = dropWhile isDigit u;
                (fp, r2) = (case r1 of
                              [] \<Rightarrow> ([], [])
                            | c # r \<Rightarrow>
                                if c = CHR ''.''
                                then (takeWhile isDigit r, dropWhile isDigit r)
                                else ([], r1));
                m = of_nat (digitsVal ip) + of_nat (digitsVal fp) / 10 ^ length fp
            in if ip = [] \<and> fp = [] then NaN
               else Finite (scale10 (if neg then - m else m) (exponentPart r2))))"

section \<open>Price extraction (helpers.js)\<close>

datatype error =
    FetchError
  | TypeError
  | UnsupportedSite
  | DatabaseInsertionFailed
  | DatabaseUpdateFailed
  | DatabaseQueryFailed
  | SomethingWentWrong
  | UnknownUserStateStep

text \<open>One entry of the selector table \<^verbatim>\<open>classSelectors\<close>: the class names under which a
  site shows the price and the currency (the fields \<^verbatim>\<open>price\<close> and \<^verbatim>\<open>currency\<close> of the entry).\<close>

record selector =
  priceClass :: string
  currencyClass :: string

text \<open>
  A loaded page is represented by what it answers to a query: \<open>page sel\<close> lists the texts
  of the elements that the CSS selector \<open>sel\<close> matches, in document order. Then
  \<^verbatim>\<open>$(sel).first().text()\<close> is the text of the first match, and the empty string when
  nothing matches. The selectors the program builds are a dot and a class name of the
  table, which the library can parse.
\<close>

type_synonym page = "string \<Rightarrow> string list"

definition firstText :: "page \<Rightarrow> string \<Rightarrow> string" where
  "firstText page sel = (case page sel of [] \<Rightarrow> [] | t # _ \<Rightarrow> t)"

record reading =
  price :: number
  currencyText :: string

text \<open>The initial value of \<^verbatim>\<open>currencyText\<close> in \<^verbatim>\<open>getAmazonPrice\<close>, byte for byte as the
  source file has it.\<close>

definition defaultCurrency :: string where
  "defaultCurrency = [CHR 0xC3, CHR 0xA2, CHR 0xE2, CHR 0x80, CHR 0x9A, CHR 0xC2, CHR 0xB9]"

text \<open>\<^verbatim>\<open>replace(/[,.]/g, "")\<close>.\<close>

definition stripSeparators :: "string \<Rightarrow> string" where
  "stripSeparators s = filter (\<lambda>c. c \<noteq> CHR '','' \<and> c \<noteq> CHR ''.'') s"

text \<open>
  \<^verbatim>\<open>getAmazonPrice(selector, $)\<close>. The selector is what the table gave for the site;
  reading a field of an absent entry raises a type error. The currency variable starts
  at the default and is then assigned the text of the first match unconditionally.
\<close>

definition getAmazonPrice :: "selector option \<Rightarrow> page \<Rightarrow> error + reading" where
  "getAmazonPrice selector page =
     (case selector of
        None \<Rightarrow> Inl TypeError
      | Some sel \<Rightarrow>
          (let price0 = Finite 0;
               currencyText0 = defaultCurrency;
               priceText = stripSeparators (firstText page (''.'' @ priceClass sel));
               currencyText1 = firstText page (''.'' @ currencyClass sel);
               price1 = (if priceText \<noteq> [] then parseFloat priceText else price0)
           in Inr \<lparr>price = price1, currencyText = currencyText1\<rparr>))"

definition pipeline :: "string \<Rightarrow> selector option \<Rightarrow> page \<Rightarrow> error + reading" where
  "pipeline site selector page =
     (if site = ''amazon'' then getAmazonPrice selector page
      else Inl UnsupportedSite)"

text \<open>
  What a function of the program is run against: the network (\<open>http url\<close> is the page the
  request for \<open>url\<close> returns, or nothing when the request fails) and the selector table of
  \<^verbatim>\<open>constants.js\<close>, which is taken as a parameter.
\<close>

record env =
  http :: "string \<Rightarrow> page option"
  classSelectors :: "string \<rightharpoonup> selector"

definition fetchPrice :: "env \<Rightarrow> string \<Rightarrow> string \<Rightarrow> error + reading" where
  "fetchPrice env url site =
     (case http env url of
        None \<Rightarrow> Inl FetchError
      | Some page \<Rightarrow> pipeline site (classSelectors env site) page)"

section \<open>The store, the transport and the log\<close>

text \<open>One row of the table \<^verbatim>\<open>price_tracker\<close> (sqlite.js). The column \<^verbatim>\<open>id\<close> is \<open>row_id\<close>
  here.\<close>

record item =
  row_id :: nat
  chat_id :: int
  url :: string
  site :: string
  last_price :: number
  currency :: string

text \<open>The messages the program hands to \<^verbatim>\<open>sendMessage\<close>, by their content.\<close>

datatype message =
    PriceDrop string string number string number
  | FetchingPrice
  | ProductAdded string number
  | SendProductInfo
  | InvalidMessageFormat
  | RemovingProduct string
  | ProductRemoved string
  | NoProductFound string
  | SendProductId
  | ClearingAll
  | AllRemoved nat

text \<open>The lines the program writes with \<^verbatim>\<open>console.debug\<close> and \<^verbatim>\<open>console.error\<close>.\<close>

datatype logEntry =
    SchedulingPriceCheck
  | NoItemsInWatchlist
  | CheckingPrice string
  | NoPriceChange nat
  | UpdatingPrice nat int
  | PrePriceCheck nat
  | ErrorChecking string error
  | ItemAdded int
  | ItemUpdated int
  | FoundWatches nat int
  | FoundItems nat
  | DeletedItems nat int
  | SomethingWentWrongLog

text \<open>
  The state the program runs on, after start-up (index.js creates the bot and opens the
  database before it registers a handler or the schedule, so both handles exist): the
  rows of the table and the largest row id ever given out (the table is AUTOINCREMENT),
  the calls of \<^verbatim>\<open>sendMessage\<close> in order, the log, and the session map \<^verbatim>\<open>userStates\<close> with
  the \<^verbatim>\<open>step\<close> of each pending session. The transport is not modelled beyond the record
  of the calls made to it.
\<close>

record world =
  db :: "item list"
  sequence :: nat
  sent :: "(int \<times> message) list"
  logged :: "logEntry list"
  userStates :: "int \<rightharpoonup> string"

text \<open>An operation either returns a value or raises, and leaves a state in both cases.\<close>

type_synonym 'a io = "world \<Rightarrow> (error + 'a) \<times> world"

definition ret :: "'a \<Rightarrow> 'a io" where
  "ret x = (\<lambda>w. (Inr x, w))"

definition throw :: "error \<Rightarrow> 'a io" where
  "throw e = (\<lambda>w. (Inl e, w))"

definition bind :: "'a io \<Rightarrow> ('a \<Rightarrow> 'b io) \<Rightarrow> 'b io" where
  "bind m f = (\<lambda>w. case m w of (Inl e, w') \<Rightarrow> (Inl e, w') | (Inr x, w') \<Rightarrow> f x w')"

definition catch :: "'a io \<Rightarrow> (error \<Rightarrow> 'a io) \<Rightarrow> 'a io" where
  "catch m h = (\<lambda>w. case m w of (Inl e, w') \<Rightarrow> h e w' | (Inr x, w') \<Rightarrow> (Inr x, w'))"

definition lift :: "error + 'a \<Rightarrow> 'a io" where
  "lift r = (\<lambda>w. (r, w))"

definition console :: "logEntry \<Rightarrow> unit io" where
  "console l = (\<lambda>w. (Inr (), w\<lparr>logged := logged w @ [l]\<rparr>))"

definition sendMessage :: "int \<Rightarrow> message \<Rightarrow> unit io" where
  "sendMessage chatId msg = (\<lambda>w. (Inr (), w\<lparr>sent := sent w @ [(chatId, msg)]\<rparr>))"

section \<open>Store operations (helpers.js)\<close>

text \<open>
  \<^verbatim>\<open>addToWatchlist\<close>. The new row takes the id after the largest one ever used. A NaN
  price is bound as NULL and the column \<^verbatim>\<open>last_price\<close> is NOT NULL, so the statement raises
  there; the handler logs and raises the insertion failure.
\<close>

definition addToWatchlist :: "int \<Rightarrow> string \<Rightarrow> string \<Rightarrow> number \<Rightarrow> string \<Rightarrow> int io" where
  "addToWatchlist chatId u s p c =
     (\<lambda>w. if p = NaN
           then (Inl DatabaseInsertionFailed, w\<lparr>logged := logged w @ [SomethingWentWrongLog]\<rparr>)
           else
             (let n = Suc (foldr max (map row_id (db w)) (sequence w));
                  r = \<lparr>row_id = n, chat_id = chatId, url = u, site = s,
                       last_price = p, currency = c\<rparr>
              in (Inr chatId,
                  w\<lparr>db := db w @ [r], sequence := n, logged := logged w @ [ItemAdded chatId]\<rparr>)))"

text \<open>
  \<^verbatim>\<open>updateWatchlist(record)\<close>: every row with the id gets the price and the currency, and
  the chat id of the first such row is returned. When no row has the id the statement
  returns nothing, taking \<^verbatim>\<open>chat_id\<close> from it raises, and the handler logs and raises the
  update failure; so does a NaN price on a row that exists.
\<close>

definition updateWatchlist :: "nat \<Rightarrow> number \<Rightarrow> string \<Rightarrow> int io" where
  "updateWatchlist i lastPrice c =
     (\<lambda>w. case filter (\<lambda>r. row_id r = i) (db w) of
             [] \<Rightarrow> (Inl DatabaseUpdateFailed, w\<lparr>logged := logged w @ [SomethingWentWrongLog]\<rparr>)
           | r # _ \<Rightarrow>
               if lastPrice = NaN
               then (Inl DatabaseUpdateFailed, w\<lparr>logged := logged w @ [SomethingWentWrongLog]\<rparr>)
               else
                 (Inr (chat_id r),
                  w\<lparr>db := map (\<lambda>x. if row_id x = i
                                     then x\<lparr>last_price := lastPrice, currency := c\<rparr>
                                     else x) (db w),
                    logged := logged w @ [ItemUpdated (chat_id r)]\<rparr>))"

text \<open>
  The two queries return whole rows. The column \<^verbatim>\<open>last_price\<close> keeps a price that is a whole
  number of magnitude below \<open>2 ^ 63\<close> as an INTEGER, and the driver hands an INTEGER back as
  a number only inside the safe range; so reading a row whose price is a whole number of
  magnitude \<open>2 ^ 53\<close> or more raises, and the handler logs and raises the query failure.
\<close>

definition unsafeInteger :: "number \<Rightarrow> bool" where
  "unsafeInteger p =
     (case p of
        Finite q \<Rightarrow> q = of_int \<lfloor>q\<rfloor> \<and> 2 ^ 53 \<le> \<bar>q\<bar> \<and> \<bar>q\<bar> < 2 ^ 63
      | _ \<Rightarrow> False)"

definition getWatchlist :: "int \<Rightarrow> item list io" where
  "getWatchlist chatId =
     (\<lambda>w. let rows = filter (\<lambda>r. chat_id r = chatId) (db w)
           in if list_ex (\<lambda>r. unsafeInteger (last_price r)) rows
              then (Inl DatabaseQueryFailed, w\<lparr>logged := logged w @ [SomethingWentWrongLog]\<rparr>)
              else (Inr rows, w\<lparr>logged := logged w @ [FoundWatches (length rows) chatId]\<rparr>))"

definition getAllWatchlist :: "item list io" where
  "getAllWatchlist =
     (\<lambda>w. let rows = db w
           in if list_ex (\<lambda>r. unsafeInteger (last_price r)) rows
              then (Inl DatabaseQueryFailed, w\<lparr>logged := logged w @ [SomethingWentWrongLog]\<rparr>)
              else (Inr rows, w\<lparr>logged := logged w @ [FoundItems (length rows)]\<rparr>))"

text \<open>
  The id handed to \<^verbatim>\<open>removeFromWatchlist\<close> is a number by its documentation and a text
  at its call sites (the text of a message). The store compares the integer column with
  a text after reading the text as a number; the model reads a text of decimal digits so
  and lets every other text match no row, also the signed, fractional and exponent forms
  of a whole number, which the store reads as that number.
\<close>

datatype idArg = IdNumber nat | IdText string

definition idMatches :: "idArg \<Rightarrow> nat \<Rightarrow> bool" where
  "idMatches a i =
     (case a of
        IdNumber n \<Rightarrow> i = n
      | IdText t \<Rightarrow> t \<noteq> [] \<and> list_all isDigit t \<and> i = digitsVal t)"

definition removeFromWatchlist :: "int \<Rightarrow> idArg \<Rightarrow> nat io" where
  "removeFromWatchlist chatId a =
     (\<lambda>w. let hit = (\<lambda>r. chat_id r = chatId \<and> idMatches a (row_id r));
               changes = length (filter hit (db w))
           in (Inr changes,
               w\<lparr>db := filter (\<lambda>r. \<not> hit r) (db w),
                 logged := logged w @ [DeletedItems changes chatId]\<rparr>))"

definition clearAll :: "int \<Rightarrow> nat io" where
  "clearAll chatId =
     (\<lambda>w. let hit = (\<lambda>r. chat_id r = chatId);
               changes = length (filter hit (db w))
           in (Inr changes,
               w\<lparr>db := filter (\<lambda>r. \<not> hit r) (db w),
                 logged := logged w @ [DeletedItems changes chatId]\<rparr>))"

section \<open>The scheduled price check (schedule.js)\<close>

definition prePriceCheck :: "item \<Rightarrow> number \<Rightarrow> string \<Rightarrow> unit io" where
  "prePriceCheck it p c =
     bind (console (PrePriceCheck (row_id it))) (\<lambda>_.
       if js_less p (last_price it)
       then sendMessage (chat_id it)
              (PriceDrop (url it) (currency it) (last_price it) c p)
       else ret ())"

definition taskFunction :: "env \<Rightarrow> item \<Rightarrow> unit io" where
  "taskFunction env it =
     catch
       (bind (console (CheckingPrice (url it))) (\<lambda>_.
        bind (lift (fetchPrice env (url it) (site it))) (\<lambda>rd.
          if falsy (price rd) \<or> strict_eq (price rd) (last_price it)
          then console (NoPriceChange (row_id it))
          else
            bind (updateWatchlist (row_id it) (price rd) (currencyText rd)) (\<lambda>chatId.
            bind (console (UpdatingPrice (row_id it) chatId)) (\<lambda>_.
              prePriceCheck it (price rd) (currencyText rd))))))
       (\<lambda>e. bind (console (ErrorChecking (url it) e)) (\<lambda>_. throw SomethingWentWrong))"

text \<open>
  \<^verbatim>\<open>watchlist.forEach(async (item) => { await taskFunction(item); })\<close>: a task is started
  for every item, and nothing waits for its promise or handles its rejection; index.js
  installs no handler either, and the runtime that the program needs for \<^verbatim>\<open>node:sqlite\<close>
  ends the process on a rejection that nobody handles. The model takes the tasks in the
  order of the list, one after the other, as they run when the fetches settle in that
  order and one at a time, and stops at the first task that raises: the result is the
  error that ended the process, or none when every task returned. The order of the log
  lines of different tasks is that of this run.
\<close>

fun forEachTask :: "env \<Rightarrow> item list \<Rightarrow> world \<Rightarrow> error option \<times> world" where
  "forEachTask env [] w = (None, w)"
| "forEachTask env (it # its) w =
     (case taskFunction env it w of
        (Inl e, w') \<Rightarrow> (Some e, w')
      | (Inr _, w') \<Rightarrow> forEachTask env its w')"

text \<open>
  One firing of the schedule: from the call of the function that \<^verbatim>\<open>schedulePriceChecks\<close>
  registers until the tasks it started have settled or the process has ended. The
  registered function itself returns as soon as the tasks are started, so \<open>firing\<close> applied
  twice describes two firings of which the second begins after the tasks of the first
  have settled, and no others.
\<close>

definition firing :: "env \<Rightarrow> world \<Rightarrow> error option \<times> world" where
  "firing env w =
     (case bind (console SchedulingPriceCheck) (\<lambda>_. getAllWatchlist) w of
        (Inl e, w') \<Rightarrow> (Some e, w')
      | (Inr watchlist, w') \<Rightarrow>
          if length watchlist = 0
          then (None, snd (console NoItemsInWatchlist w'))
          else forEachTask env watchlist w')"

section \<open>Commands and sessions (commands.js)\<close>

definition addCommand :: "env \<Rightarrow> int \<Rightarrow> string \<Rightarrow> string \<Rightarrow> unit io" where
  "addCommand env chatId u s =
     bind (sendMessage chatId FetchingPrice) (\<lambda>_.
     bind (lift (fetchPrice env u s)) (\<lambda>rd.
     bind (addToWatchlist chatId u s (price rd) (currencyText rd)) (\<lambda>cid.
       sendMessage cid (ProductAdded (currencyText rd) (price rd)))))"

definition addCommandWithUserState :: "int \<Rightarrow> unit io" where
  "addCommandWithUserState chatId =
     (\<lambda>w. sendMessage chatId SendProductInfo
             (w\<lparr>userStates := (userStates w)(chatId \<mapsto> ''awaiting_site_url'')\<rparr>))"

definition removeCommand :: "int \<Rightarrow> string \<Rightarrow> unit io" where
  "removeCommand chatId i =
     bind (sendMessage chatId (RemovingProduct i)) (\<lambda>_.
     bind (removeFromWatchlist chatId (IdText i)) (\<lambda>changes.
       if changes > 0 then sendMessage chatId (ProductRemoved i)
       else sendMessage chatId (NoProductFound i)))"

definition removeCommandWithUserState :: "int \<Rightarrow> unit io" where
  "removeCommandWithUserState chatId =
     bind (sendMessage chatId SendProductId) (\<lambda>_.
       (\<lambda>w. (Inr (), w\<lparr>userStates := (userStates w)(chatId \<mapsto> ''awaiting_remove'')\<rparr>)))"

definition clearCommand :: "int \<Rightarrow> unit io" where
  "clearCommand chatId =
     bind (sendMessage chatId ClearingAll) (\<lambda>_.
     bind (clearAll chatId) (\<lambda>changes.
       sendMessage chatId (AllRemoved changes)))"

text \<open>
  An inbound message is represented by its \<^verbatim>\<open>text\<close> field, absent on a message that
  carries no text; \<^verbatim>\<open>msg.text.trim()\<close> raises a type error there.
\<close>

definition handleUserStateForAddCommand :: "env \<Rightarrow> int \<Rightarrow> string option \<Rightarrow> unit io" where
  "handleUserStateForAddCommand env chatId msg =
     (case msg of
        None \<Rightarrow> throw TypeError
      | Some t \<Rightarrow>
          (let text = trim t;
               parts = split_on (CHR ''-'') text
           in if length parts < 2
              then sendMessage chatId InvalidMessageFormat
              else
                (let site' = trim (parts ! 0);
                     url' = trim (parts ! 1)
                 in addCommand env chatId site' url')))"

definition handleUserStateForRemoveCommand :: "int \<Rightarrow> string option \<Rightarrow> unit io" where
  "handleUserStateForRemoveCommand chatId msg =
     (case msg of
        None \<Rightarrow> throw TypeError
      | Some t \<Rightarrow> removeCommand chatId (trim t))"

definition listenToMessages :: "env \<Rightarrow> int \<Rightarrow> string option \<Rightarrow> unit io" where
  "listenToMessages env chatId msg =
     (\<lambda>w. case userStates w chatId of
             None \<Rightarrow> (Inr (), w)
           | Some step \<Rightarrow>
               bind
                 (if step = ''awaiting_site_url''
                  then handleUserStateForAddCommand env chatId msg
                  else if step = ''awaiting_remove''
                  then handleUserStateForRemoveCommand chatId msg
                  else throw UnknownUserStateStep)
                 (\<lambda>_ w'. (Inr (), w'\<lparr>userStates := (userStates w')(chatId := None)\<rparr>))
                 w)"

section \<open>Auxiliary definitions for the statements\<close>

text \<open>
  What one run of \<open>taskFunction\<close> for the item \<open>it\<close> makes of a row \<open>r\<close> of the table, and
  the messages it sends when the table holds the ids \<open>ids\<close>. Both are shown below to
  describe \<open>taskFunction\<close>; they serve the proofs, and no statement of a property rests on
  them.
\<close>

definition taskRow :: "env \<Rightarrow> item \<Rightarrow> item \<Rightarrow> item" where
  "taskRow env it r =
     (case fetchPrice env (url it) (site it) of
        Inl _ \<Rightarrow> r
      | Inr rd \<Rightarrow>
          if falsy (price rd) then r
          else if strict_eq (price rd) (last_price it) then r
          else if row_id r = row_id it
          then r\<lparr>last_price := price rd, currency := currencyText rd\<rparr>
          else r)"

definition taskNotes :: "env \<Rightarrow> item \<Rightarrow> nat list \<Rightarrow> (int \<times> message) list" where
  "taskNotes env it ids =
     (case fetchPrice env (url it) (site it) of
        Inl _ \<Rightarrow> []
      | Inr rd \<Rightarrow>
          if falsy (price rd) then []
          else if strict_eq (price rd) (last_price it) then []
          else if row_id it \<in> set ids \<and> js_less (price rd) (last_price it)
          then [(chat_id it, PriceDrop (url it) (currency it) (last_price it)
                               (currencyText rd) (price rd))]
          else [])"

text \<open>The branch that \<open>listenToMessages\<close> takes for a pending session with the given step.\<close>

definition pendingHandler :: "env \<Rightarrow> int \<Rightarrow> string option \<Rightarrow> string \<Rightarrow> unit io" where
  "pendingHandler env c msg step =
     (if step = ''awaiting_site_url'' then handleUserStateForAddCommand env c msg
      else if step = ''awaiting_remove'' then handleUserStateForRemoveCommand c msg
      else throw UnknownUserStateStep)"

text \<open>Concrete pages, a network and stores on which the properties are evaluated.\<close>

definition exampleSelector :: selector where
  "exampleSelector = \<lparr>priceClass = ''a-price-whole'', currencyClass = ''a-price-symbol''\<rparr>"

definition examplePage :: page where
  "examplePage =
     (\<lambda>sel. if sel = ''.a-price-whole'' then [''1,299.00'']
            else if sel = ''.a-price-symbol'' then [''$'']
            else [])"

definition pageWithoutPrice :: page where
  "pageWithoutPrice = (\<lambda>sel. if sel = ''.a-price-symbol'' then [''$''] else [])"

definition pageWithoutCurrency :: page where
  "pageWithoutCurrency = (\<lambda>sel. if sel = ''.a-price-whole'' then [''1,299.00''] else [])"

definition pageWithDotPrice :: page where
  "pageWithDotPrice =
     (\<lambda>sel. if sel = ''.a-price-whole'' then [''.'']
            else if sel = ''.a-price-symbol'' then [''$'']
            else [])"

definition exampleEnv :: env where
  "exampleEnv =
     \<lparr>http = (\<lambda>u. if u = ''u1'' then Some examplePage
                  else if u = ''u0'' then Some pageWithoutPrice
                  else if u = ''u4'' then Some pageWithDotPrice
                  else if u = ''u5'' then Some pageWithoutCurrency
                  else None),
      classSelectors = [''amazon'' \<mapsto> exampleSelector]\<rparr>"

definition item1 :: item where
  "item1 = \<lparr>row_id = 1, chat_id = 7, url = ''u1'', site = ''amazon'',
             last_price = Finite 200000, currency = ''$''\<rparr>"

definition item2 :: item where
  "item2 = \<lparr>row_id = 2, chat_id = 8, url = ''u2'', site = ''amazon'',
             last_price = Finite 5, currency = ''$''\<rparr>"

definition item3 :: item where
  "item3 = \<lparr>row_id = 3, chat_id = 8, url = ''u1'', site = ''amazon'',
             last_price = Finite 5, currency = ''E''\<rparr>"

definition item4 :: item where
  "item4 = \<lparr>row_id = 4, chat_id = 9, url = ''u0'', site = ''amazon'',
             last_price = Finite 100, currency = ''$''\<rparr>"

definition item5 :: item where
  "item5 = \<lparr>row_id = 5, chat_id = 9, url = ''u1'', site = ''amazon'',
             last_price = Finite 129900, currency = ''$''\<rparr>"

definition stableWorld :: world where
  "stableWorld = \<lparr>db = [item5], sequence = 5, sent = [], logged = [],
                   userStates = Map.empty\<rparr>"

definition exampleWorld :: world where
  "exampleWorld = \<lparr>db = [item1, item2, item3], sequence = 3, sent = [], logged = [],
                    userStates = Map.empty\<rparr>"

definition zeroWorld :: world where
  "zeroWorld = \<lparr>db = [item4], sequence = 4, sent = [], logged = [],
                 userStates = Map.empty\<rparr>"

definition sessionWorld :: world where
  "sessionWorld =
     exampleWorld\<lparr>userStates := [7 \<mapsto> ''awaiting_site_url'', 8 \<mapsto> ''awaiting_remove'']\<rparr>"

definition calmWorld :: world where
  "calmWorld = \<lparr>db = [item1, item3], sequence = 3, sent = [], logged = [],
                 userStates = Map.empty\<rparr>"

section \<open>Facts about extraction\<close>

lemma isDigit_cases:
  "isDigit c \<Longrightarrow> \<not> isWhiteSpace c \<and> c \<noteq> CHR ''-'' \<and> c \<noteq> CHR ''+'' \<and> c \<noteq> CHR ''I''"
  by (auto simp: isDigit_def isWhiteSpace_def)

lemma parseFloat_digits:
  assumes ne: "ds \<noteq> []" and dg: "list_all isDigit ds"
  shows "parseFloat ds = Finite (of_nat (digitsVal ds))"
proof -
  from ne obtain c cs where ds: "ds = c # cs" by (cases ds) auto
  with dg have c: "isDigit c" by simp
  note nc = isDigit_cases [OF c]
  have ws: "dropWhile isWhiteSpace ds = ds" using nc by (simp add: ds)
  have sg: "strSign ds = (False, ds)" using nc by (simp add: ds)
  have inf: "take 8 ds \<noteq> ''Infinity''" using nc by (simp add: ds)
  have tw: "takeWhile isDigit ds = ds" using dg by (simp add: takeWhile_eq_all_conv list_all_iff)
  have dw: "dropWhile isDigit ds = []" using dg by (simp add: list_all_iff)
  show ?thesis
    unfolding parseFloat_def ws sg
    using inf ne
    by (simp add: tw dw exponentPart_def scale10_def digitsVal_def)
qed

lemma parseFloat_129900: "parseFloat ''129900'' = Finite 129900"
  using parseFloat_digits [of "''129900''"] by (simp add: isDigit_def digitsVal_def digitVal_def)

lemma fetchPrice_u1:
  "fetchPrice exampleEnv ''u1'' ''amazon'' = Inr \<lparr>price = Finite 129900, currencyText = ''$''\<rparr>"
  by (simp add: fetchPrice_def exampleEnv_def pipeline_def getAmazonPrice_def exampleSelector_def
      examplePage_def firstText_def stripSeparators_def parseFloat_129900)

lemma fetchPrice_u0:
  "fetchPrice exampleEnv ''u0'' ''amazon'' = Inr \<lparr>price = Finite 0, currencyText = ''$''\<rparr>"
  by (simp add: fetchPrice_def exampleEnv_def pipeline_def getAmazonPrice_def exampleSelector_def
      pageWithoutPrice_def firstText_def stripSeparators_def)

lemma fetchPrice_u2: "fetchPrice exampleEnv ''u2'' s = Inl FetchError"
  by (simp add: fetchPrice_def exampleEnv_def)

section \<open>Facts about the scheduled price check\<close>

lemmas io_defs = ret_def throw_def bind_def catch_def lift_def console_def sendMessage_def


lemma taskFunction_fetch_failed:
  assumes "fetchPrice env (url it) (site it) = Inl e"
  shows "taskFunction env it w =
           (Inl SomethingWentWrong,
            w\<lparr>logged := logged w @ [CheckingPrice (url it), ErrorChecking (url it) e]\<rparr>)"
  using assms by (simp add: taskFunction_def io_defs)

lemma taskFunction_no_change:
  assumes "fetchPrice env (url it) (site it) = Inr rd"
    and "falsy (price rd) \<or> strict_eq (price rd) (last_price it)"
  shows "taskFunction env it w =
           (Inr (), w\<lparr>logged := logged w @ [CheckingPrice (url it), NoPriceChange (row_id it)]\<rparr>)"
  using assms by (auto simp add: taskFunction_def io_defs)

lemma taskFunction_missing_row:
  assumes "fetchPrice env (url it) (site it) = Inr rd"
    and "\<not> falsy (price rd)" and "\<not> strict_eq (price rd) (last_price it)"
    and "filter (\<lambda>r. row_id r = row_id it) (db w) = []"
  shows "taskFunction env it w =
           (Inl SomethingWentWrong,
            w\<lparr>logged := logged w @ [CheckingPrice (url it), SomethingWentWrongLog,
                                ErrorChecking (url it) DatabaseUpdateFailed]\<rparr>)"
  using assms by (simp add: taskFunction_def io_defs updateWatchlist_def)

lemma taskFunction_changed:
  assumes "fetchPrice env (url it) (site it) = Inr rd"
    and "\<not> falsy (price rd)" and "\<not> strict_eq (price rd) (last_price it)"
    and "filter (\<lambda>r. row_id r = row_id it) (db w) = r # rs"
  shows "taskFunction env it w =
           (Inr (),
            w\<lparr>db := map (\<lambda>x. if row_id x = row_id it
                               then x\<lparr>last_price := price rd, currency := currencyText rd\<rparr>
                               else x) (db w),
              logged := logged w @ [CheckingPrice (url it), ItemUpdated (chat_id r),
                              UpdatingPrice (row_id it) (chat_id r), PrePriceCheck (row_id it)],
              sent := sent w @ (if js_less (price rd) (last_price it)
                                then [(chat_id it, PriceDrop (url it) (currency it) (last_price it)
                                                     (currencyText rd) (price rd))]
                                else [])\<rparr>)"
  using assms by (simp add: taskFunction_def io_defs updateWatchlist_def prePriceCheck_def falsy_def)

lemma taskRow_fetch_failed: "fetchPrice env (url it) (site it) = Inl e \<Longrightarrow> taskRow env it = (\<lambda>r. r)"
  by (rule ext) (simp add: taskRow_def)

lemma taskRow_no_change:
  "fetchPrice env (url it) (site it) = Inr rd \<Longrightarrow>
   falsy (price rd) \<or> strict_eq (price rd) (last_price it) \<Longrightarrow> taskRow env it = (\<lambda>r. r)"
  by (rule ext) (auto simp add: taskRow_def)

lemma filter_row_id_empty: "(filter (\<lambda>r. row_id r = i) rows = []) = (i \<notin> set (map row_id rows))"
  by (auto simp: filter_empty_conv)

lemma updateWatchlist_db:
  "db (snd (updateWatchlist i p c w)) =
     (if p = NaN then db w
      else map (\<lambda>x. if row_id x = i then x\<lparr>last_price := p, currency := c\<rparr> else x) (db w))"
proof (cases "filter (\<lambda>r. row_id r = i) (db w)")
  case Nil
  then have "i \<notin> set (map row_id (db w))" by (simp add: filter_row_id_empty)
  then have "map (\<lambda>x. if row_id x = i then x\<lparr>last_price := p, currency := c\<rparr> else x) (db w) = db w"
    by (intro map_idI) auto
  with Nil show ?thesis by (simp add: updateWatchlist_def)
next
  case (Cons r rs)
  then show ?thesis by (simp add: updateWatchlist_def)
qed

lemma taskFunction_db: "db (snd (taskFunction env it w)) = map (taskRow env it) (db w)"
proof (cases "fetchPrice env (url it) (site it)")
  case (Inl e)
  then show ?thesis by (simp add: taskFunction_fetch_failed taskRow_fetch_failed)
next
  case (Inr rd)
  show ?thesis
  proof (cases "falsy (price rd) \<or> strict_eq (price rd) (last_price it)")
    case True
    with Inr show ?thesis by (simp add: taskFunction_no_change taskRow_no_change)
  next
    case False
    then have nn: "price rd \<noteq> NaN" by (simp add: falsy_def)
    have "db (snd (taskFunction env it w)) =
            db (snd (updateWatchlist (row_id it) (price rd) (currencyText rd)
                       (w\<lparr>logged := logged w @ [CheckingPrice (url it)]\<rparr>)))"
      using Inr False
      by (simp add: taskFunction_def io_defs prePriceCheck_def split: prod.splits sum.splits)
    also have "\<dots> = map (taskRow env it) (db w)"
      using Inr False nn by (simp add: updateWatchlist_db taskRow_def cong: map_cong)
    finally show ?thesis .
  qed
qed

lemma taskRow_row_id [simp]: "row_id (taskRow env it r) = row_id r"
  by (simp add: taskRow_def split: sum.splits)

lemma taskRow_url [simp]: "url (taskRow env it r) = url r"
  by (simp add: taskRow_def split: sum.splits)

lemma taskRow_site [simp]: "site (taskRow env it r) = site r"
  by (simp add: taskRow_def split: sum.splits)

lemma taskRow_other: "row_id it \<noteq> row_id r \<Longrightarrow> taskRow env it r = r"
  by (simp add: taskRow_def split: sum.splits)

lemma taskFunction_sent:
  "sent (snd (taskFunction env it w)) = sent w @ taskNotes env it (map row_id (db w))"
proof (cases "fetchPrice env (url it) (site it)")
  case (Inl e)
  then show ?thesis by (simp add: taskFunction_fetch_failed taskNotes_def)
next
  case (Inr rd)
  show ?thesis
  proof (cases "falsy (price rd) \<or> strict_eq (price rd) (last_price it)")
    case True
    with Inr show ?thesis by (auto simp add: taskFunction_no_change taskNotes_def)
  next
    case False
    show ?thesis
    proof (cases "filter (\<lambda>r. row_id r = row_id it) (db w)")
      case Nil
      then have "row_id it \<notin> set (map row_id (db w))" by (simp add: filter_row_id_empty)
      with Inr False Nil show ?thesis
        by (simp add: taskFunction_missing_row taskNotes_def)
    next
      case (Cons r rs)
      then have "row_id it \<in> set (map row_id (db w))"
        using filter_row_id_empty [of "row_id it" "db w"] by simp
      with Inr False Cons show ?thesis
        by (simp add: taskFunction_changed taskNotes_def)
    qed
  qed
qed

lemma fold_taskRow_row_id [simp]: "row_id (fold (taskRow env) its r) = row_id r"
  by (induction its arbitrary: r) simp_all

lemma fold_taskRow_other:
  "row_id r \<notin> set (map row_id its) \<Longrightarrow> fold (taskRow env) its r = r"
  by (induction its arbitrary: r) (auto simp: taskRow_other)

lemma fold_taskRow_own:
  "distinct (map row_id its) \<Longrightarrow> r \<in> set its \<Longrightarrow> fold (taskRow env) its r = taskRow env r r"
proof (induction its)
  case Nil
  then show ?case by simp
next
  case (Cons it its)
  show ?case
  proof (cases "it = r")
    case True
    with Cons.prems have "row_id (taskRow env r r) \<notin> set (map row_id its)" by simp
    then show ?thesis using True by (simp add: fold_taskRow_other del: taskRow_row_id)
  next
    case False
    with Cons.prems have "r \<in> set its" and "row_id it \<noteq> row_id r" by auto
    with Cons show ?thesis by (simp add: taskRow_other)
  qed
qed

lemma taskFunction_ids: "map row_id (db (snd (taskFunction env it w))) = map row_id (db w)"
  by (simp add: taskFunction_db)

lemma taskFunction_returns:
  assumes "fetchPrice env (url it) (site it) = Inr rd"
    and "row_id it \<in> set (map row_id (db w))"
  shows "fst (taskFunction env it w) = Inr ()"
proof (cases "falsy (price rd) \<or> strict_eq (price rd) (last_price it)")
  case True
  with assms(1) show ?thesis by (simp add: taskFunction_no_change)
next
  case False
  from assms(2) obtain r rs where "filter (\<lambda>r. row_id r = row_id it) (db w) = r # rs"
    using filter_row_id_empty [of "row_id it" "db w"]
    by (cases "filter (\<lambda>r. row_id r = row_id it) (db w)") auto
  with assms(1) False show ?thesis by (simp add: taskFunction_changed)
qed

lemma taskFunction_raises:
  assumes "fetchPrice env (url it) (site it) = Inl e"
  shows "fst (taskFunction env it w) = Inl SomethingWentWrong"
  using assms by (simp add: taskFunction_fetch_failed)

lemma forEachTask_raised:
  "fst (taskFunction env it w) = Inl e \<Longrightarrow>
   forEachTask env (it # its) w = (Some e, snd (taskFunction env it w))"
  by (cases "taskFunction env it w") simp

lemma forEachTask_returned:
  "fst (taskFunction env it w) = Inr u \<Longrightarrow>
   forEachTask env (it # its) w = forEachTask env its (snd (taskFunction env it w))"
  by (cases "taskFunction env it w") simp

declare forEachTask.simps(2) [simp del]

lemma forEachTask_ids:
  "map row_id (db (snd (forEachTask env its w))) = map row_id (db w)"
proof (induction its arbitrary: w)
  case Nil
  then show ?case by simp
next
  case (Cons it its)
  show ?case
  proof (cases "fst (taskFunction env it w)")
    case (Inl e)
    then show ?thesis by (simp add: forEachTask_raised taskFunction_ids)
  next
    case (Inr u)
    then show ?thesis by (simp add: forEachTask_returned Cons.IH taskFunction_ids)
  qed
qed

text \<open>When no task raises, every fetch has succeeded and the table and the messages are
  those of the tasks taken together.\<close>

lemma forEachTask_fetched:
  assumes "fst (forEachTask env its w) = None" and "it \<in> set its"
  shows "\<exists>rd. fetchPrice env (url it) (site it) = Inr rd"
  using assms
proof (induction its arbitrary: w)
  case Nil
  then show ?case by simp
next
  case (Cons x its)
  show ?case
  proof (cases "fst (taskFunction env x w)")
    case (Inl e)
    with Cons.prems(1) show ?thesis by (simp add: forEachTask_raised)
  next
    case (Inr u)
    show ?thesis
    proof (cases "it = x")
      case True
      show ?thesis
      proof (cases "fetchPrice env (url x) (site x)")
        case (Inl e)
        with Inr show ?thesis by (simp add: taskFunction_fetch_failed)
      next
        case r: (Inr rd)
        with True show ?thesis by simp
      qed
    next
      case False
      with Cons.prems(2) have "it \<in> set its" by simp
      moreover have "fst (forEachTask env its (snd (taskFunction env x w))) = None"
        using Cons.prems(1) Inr by (simp add: forEachTask_returned)
      ultimately show ?thesis by (rule Cons.IH [rotated])
    qed
  qed
qed

lemma forEachTask_db:
  assumes "fst (forEachTask env its w) = None"
  shows "db (snd (forEachTask env its w)) = map (fold (taskRow env) its) (db w)"
  using assms
proof (induction its arbitrary: w)
  case Nil
  then show ?case by simp
next
  case (Cons it its)
  show ?case
  proof (cases "fst (taskFunction env it w)")
    case (Inl e)
    with Cons.prems show ?thesis by (simp add: forEachTask_raised)
  next
    case (Inr u)
    with Cons.prems have "fst (forEachTask env its (snd (taskFunction env it w))) = None"
      by (simp add: forEachTask_returned)
    from Cons.IH [OF this] Inr show ?thesis
      by (simp add: forEachTask_returned taskFunction_db)
  qed
qed

lemma forEachTask_sent:
  assumes "fst (forEachTask env its w) = None"
  shows "sent (snd (forEachTask env its w)) =
           sent w @ concat (map (\<lambda>it. taskNotes env it (map row_id (db w))) its)"
  using assms
proof (induction its arbitrary: w)
  case Nil
  then show ?case by simp
next
  case (Cons it its)
  show ?case
  proof (cases "fst (taskFunction env it w)")
    case (Inl e)
    with Cons.prems show ?thesis by (simp add: forEachTask_raised)
  next
    case (Inr u)
    with Cons.prems have "fst (forEachTask env its (snd (taskFunction env it w))) = None"
      by (simp add: forEachTask_returned)
    from Cons.IH [OF this] Inr show ?thesis
      by (simp add: forEachTask_returned taskFunction_sent taskFunction_ids)
  qed
qed

text \<open>When every fetch succeeds and every item has its row, no task raises.\<close>

lemma forEachTask_returns:
  assumes "\<forall>it \<in> set its. \<exists>rd. fetchPrice env (url it) (site it) = Inr rd"
    and "set (map row_id its) \<subseteq> set (map row_id (db w))"
  shows "fst (forEachTask env its w) = None"
  using assms
proof (induction its arbitrary: w)
  case Nil
  then show ?case by simp
next
  case (Cons it its)
  from Cons.prems(1) obtain rd where f: "fetchPrice env (url it) (site it) = Inr rd" by auto
  from Cons.prems(2) have "row_id it \<in> set (map row_id (db w))" by simp
  with f have r: "fst (taskFunction env it w) = Inr ()" by (rule taskFunction_returns)
  have "fst (forEachTask env its (snd (taskFunction env it w))) = None"
    using Cons.prems by (intro Cons.IH) (simp_all add: taskFunction_ids)
  with r show ?case by (simp add: forEachTask_returned)
qed

text \<open>Tasks that find the stored price, or no price, change neither the table nor the
  messages, and none of them raises.\<close>

lemma forEachTask_quiet:
  assumes "\<forall>it \<in> set its. \<exists>rd. fetchPrice env (url it) (site it) = Inr rd \<and>
             (falsy (price rd) \<or> strict_eq (price rd) (last_price it))"
  shows "fst (forEachTask env its w) = None \<and> db (snd (forEachTask env its w)) = db w \<and>
         sent (snd (forEachTask env its w)) = sent w"
  using assms
proof (induction its arbitrary: w)
  case Nil
  then show ?case by simp
next
  case (Cons it its)
  from Cons.prems obtain rd where f: "fetchPrice env (url it) (site it) = Inr rd"
    and q: "falsy (price rd) \<or> strict_eq (price rd) (last_price it)" by auto
  note t = taskFunction_no_change [OF f q]
  have "forEachTask env (it # its) w =
          forEachTask env its (w\<lparr>logged := logged w @ [CheckingPrice (url it), NoPriceChange (row_id it)]\<rparr>)"
    by (simp add: t forEachTask.simps(2))
  moreover have "\<forall>it \<in> set its. \<exists>rd. fetchPrice env (url it) (site it) = Inr rd \<and>
             (falsy (price rd) \<or> strict_eq (price rd) (last_price it))"
    using Cons.prems by simp
  ultimately show ?case using Cons.IH by simp
qed

lemma taskRow_quiet:
  assumes "fetchPrice env (url r) (site r) = Inr rd"
  shows "fetchPrice env (url (taskRow env r r)) (site (taskRow env r r)) = Inr rd \<and>
         (falsy (price rd) \<or> strict_eq (price rd) (last_price (taskRow env r r)))"
  using assms by (auto simp add: taskRow_def strict_eq_def falsy_def)

text \<open>The order in which the tasks of a firing settle does not show in the table when
  none of them raises.\<close>

lemma forEachTask_any_order:
  assumes "distinct (map row_id its)" and "set its = set (db w)"
    and "fst (forEachTask env its w) = None"
  shows "db (snd (forEachTask env its w)) = map (\<lambda>r. taskRow env r r) (db w)"
  using assms by (simp add: forEachTask_db fold_taskRow_own cong: map_cong)

lemma firing_cases:
  "firing env w =
     (if list_ex (\<lambda>r. unsafeInteger (last_price r)) (db w)
      then (Some DatabaseQueryFailed,
            w\<lparr>logged := logged w @ [SchedulingPriceCheck, SomethingWentWrongLog]\<rparr>)
      else if db w = []
      then (None, w\<lparr>logged := logged w @ [SchedulingPriceCheck, FoundItems 0, NoItemsInWatchlist]\<rparr>)
      else forEachTask env (db w)
             (w\<lparr>logged := logged w @ [SchedulingPriceCheck, FoundItems (length (db w))]\<rparr>))"
  by (simp add: firing_def io_defs getAllWatchlist_def Let_def)

lemma firing_ids: "map row_id (db (snd (firing env w))) = map row_id (db w)"
  by (simp add: firing_cases forEachTask_ids)

lemma firing_fetched:
  assumes "fst (firing env w) = None" and "it \<in> set (db w)"
  shows "\<exists>rd. fetchPrice env (url it) (site it) = Inr rd"
proof -
  from assms(2) have ne: "db w \<noteq> []" by auto
  let ?w = "w\<lparr>logged := logged w @ [SchedulingPriceCheck, FoundItems (length (db w))]\<rparr>"
  have "fst (forEachTask env (db w) ?w) = None"
    using assms(1) ne by (simp add: firing_cases split: if_splits)
  then show ?thesis using assms(2) by (rule forEachTask_fetched)
qed

lemma firing_db:
  assumes "distinct (map row_id (db w))" and "fst (firing env w) = None"
  shows "db (snd (firing env w)) = map (\<lambda>r. taskRow env r r) (db w)"
proof (cases "db w = []")
  case True
  with assms(2) show ?thesis by (simp add: firing_cases split: if_splits)
next
  case False
  let ?w = "w\<lparr>logged := logged w @ [SchedulingPriceCheck, FoundItems (length (db w))]\<rparr>"
  have f: "firing env w = forEachTask env (db w) ?w"
    using assms(2) False by (simp add: firing_cases split: if_splits)
  have "db (snd (forEachTask env (db w) ?w)) = map (\<lambda>r. taskRow env r r) (db ?w)"
    using assms by (intro forEachTask_any_order) (simp_all add: f)
  then show ?thesis by (simp add: f)
qed

lemma firing_sent:
  assumes "fst (firing env w) = None"
  shows "sent (snd (firing env w)) =
           sent w @ concat (map (\<lambda>it. taskNotes env it (map row_id (db w))) (db w))"
proof (cases "db w = []")
  case True
  with assms show ?thesis by (simp add: firing_cases split: if_splits)
next
  case False
  let ?w = "w\<lparr>logged := logged w @ [SchedulingPriceCheck, FoundItems (length (db w))]\<rparr>"
  have f: "firing env w = forEachTask env (db w) ?w"
    using assms False by (simp add: firing_cases split: if_splits)
  have "fst (forEachTask env (db w) ?w) = None" using assms by (simp add: f)
  from forEachTask_sent [OF this] show ?thesis by (simp add: f)
qed

lemma firing_quiet:
  assumes "\<forall>it \<in> set (db w). \<exists>rd. fetchPrice env (url it) (site it) = Inr rd \<and>
             (falsy (price rd) \<or> strict_eq (price rd) (last_price it))"
  shows "db (snd (firing env w)) = db w \<and> sent (snd (firing env w)) = sent w"
proof -
  let ?w = "w\<lparr>logged := logged w @ [SchedulingPriceCheck, FoundItems (length (db w))]\<rparr>"
  have "db (snd (forEachTask env (db w) ?w)) = db ?w \<and>
        sent (snd (forEachTask env (db w) ?w)) = sent ?w"
    using forEachTask_quiet [OF assms, of ?w] by simp
  then show ?thesis by (simp add: firing_cases)
qed

lemma firing_returns:
  assumes "\<not> list_ex (\<lambda>r. unsafeInteger (last_price r)) (db w)"
    and "\<forall>it \<in> set (db w). \<exists>rd. fetchPrice env (url it) (site it) = Inr rd"
  shows "fst (firing env w) = None"
proof -
  let ?w = "w\<lparr>logged := logged w @ [SchedulingPriceCheck, FoundItems (length (db w))]\<rparr>"
  have "fst (forEachTask env (db w) ?w) = None"
    using assms(2) by (intro forEachTask_returns) simp_all
  with assms(1) show ?thesis by (simp add: firing_cases)
qed

lemma js_less_irrefl: "\<not> js_less a a"
  by (cases a) simp_all

lemma js_less_asym: "js_less a b \<Longrightarrow> \<not> js_less b a"
  by (cases a; cases b) simp_all

lemma item_in_db_filter:
  "it \<in> set (db w) \<Longrightarrow> \<exists>r rs. filter (\<lambda>r. row_id r = row_id it) (db w) = r # rs"
  by (cases "filter (\<lambda>r. row_id r = row_id it) (db w)") (auto simp: filter_empty_conv)

lemma distinct_exampleWorld: "distinct (map row_id (db exampleWorld))"
  by (simp add: exampleWorld_def item1_def item2_def item3_def)

lemma distinct_calmWorld: "distinct (map row_id (db calmWorld))"
  by (simp add: calmWorld_def item1_def item3_def)

lemma firing_calmWorld_returns: "fst (firing exampleEnv calmWorld) = None"
proof (rule firing_returns)
  show "\<not> list_ex (\<lambda>r. unsafeInteger (last_price r)) (db calmWorld)"
    by (simp add: calmWorld_def item1_def item3_def unsafeInteger_def)
  show "\<forall>it \<in> set (db calmWorld). \<exists>rd. fetchPrice exampleEnv (url it) (site it) = Inr rd"
    by (simp add: calmWorld_def item1_def item3_def fetchPrice_u1)
qed

lemma firing_calmWorld_db:
  "db (snd (firing exampleEnv calmWorld)) =
     [item1\<lparr>last_price := Finite 129900, currency := ''$''\<rparr>,
      item3\<lparr>last_price := Finite 129900, currency := ''$''\<rparr>]"
proof -
  have 1: "taskRow exampleEnv item1 item1 = item1\<lparr>last_price := Finite 129900, currency := ''$''\<rparr>"
    using fetchPrice_u1 by (simp add: taskRow_def item1_def falsy_def strict_eq_def)
  have 3: "taskRow exampleEnv item3 item3 = item3\<lparr>last_price := Finite 129900, currency := ''$''\<rparr>"
    using fetchPrice_u1 by (simp add: taskRow_def item3_def falsy_def strict_eq_def)
  have "db (snd (firing exampleEnv calmWorld)) = map (\<lambda>r. taskRow exampleEnv r r) (db calmWorld)"
    by (rule firing_db [OF distinct_calmWorld firing_calmWorld_returns])
  also have "\<dots> = [taskRow exampleEnv item1 item1, taskRow exampleEnv item3 item3]"
    by (simp add: calmWorld_def)
  finally show ?thesis by (simp only: 1 3)
qed

lemma firing_calmWorld_sent:
  "sent (snd (firing exampleEnv calmWorld)) =
     [(7, PriceDrop ''u1'' ''$'' (Finite 200000) ''$'' (Finite 129900))]"
proof -
  have ids: "map row_id (db calmWorld) = [1, 3]"
    by (simp add: calmWorld_def item1_def item3_def)
  have 1: "taskNotes exampleEnv item1 [1, 3] =
             [(7, PriceDrop ''u1'' ''$'' (Finite 200000) ''$'' (Finite 129900))]"
    using fetchPrice_u1 by (simp add: taskNotes_def item1_def falsy_def strict_eq_def)
  have 3: "taskNotes exampleEnv item3 [1, 3] = []"
    using fetchPrice_u1 by (simp add: taskNotes_def item3_def falsy_def strict_eq_def)
  have "sent (snd (firing exampleEnv calmWorld)) =
          sent calmWorld @ concat (map (\<lambda>it. taskNotes exampleEnv it [1, 3]) (db calmWorld))"
    unfolding firing_sent [OF firing_calmWorld_returns] ids ..
  also have "\<dots> = taskNotes exampleEnv item1 [1, 3] @ taskNotes exampleEnv item3 [1, 3]"
    by (simp add: calmWorld_def)
  finally show ?thesis by (simp only: 1 3 append_Nil2 append_Nil)
qed

section \<open>Properties of the scheduled price check\<close>

text \<open>
  C1 (as amended). For an item of the watchlist and the reading fetched for it, the task
  writes the reading's price and currency to the item's row whenever the price is a
  non-zero number that differs from the stored \<open>last_price\<close>, and leaves every other row
  as it is. A reading whose price is zero or NaN is not written: the guard \<^verbatim>\<open>!price\<close>
  returns before the update.
\<close>
theorem price_change_persisted:
  assumes "it \<in> set (db w)" and "fetchPrice env (url it) (site it) = Inr rd"
  shows "(\<not> falsy (price rd) \<and> price rd \<noteq> last_price it \<longrightarrow>
            fst (taskFunction env it w) = Inr () \<and>
            db (snd (taskFunction env it w)) =
              map (\<lambda>x. if row_id x = row_id it
                        then x\<lparr>last_price := price rd, currency := currencyText rd\<rparr>
                        else x) (db w)) \<and>
         (falsy (price rd) \<longrightarrow> db (snd (taskFunction env it w)) = db w)"
proof (intro conjI impI)
  assume a: "\<not> falsy (price rd) \<and> price rd \<noteq> last_price it"
  then have ne: "\<not> strict_eq (price rd) (last_price it)" by (simp add: strict_eq_def)
  from item_in_db_filter [OF assms(1)] obtain r rs
    where f: "filter (\<lambda>r. row_id r = row_id it) (db w) = r # rs" by blast
  note t = taskFunction_changed [OF assms(2) _ ne f]
  show "fst (taskFunction env it w) = Inr ()" using a by (simp add: t)
  show "db (snd (taskFunction env it w)) =
          map (\<lambda>x. if row_id x = row_id it
                    then x\<lparr>last_price := price rd, currency := currencyText rd\<rparr>
                    else x) (db w)"
    using a by (simp add: t)
next
  assume "falsy (price rd)"
  then show "db (snd (taskFunction env it w)) = db w"
    using assms(2) by (simp add: taskFunction_no_change)
qed

text \<open>The theorem at a row priced 200000 whose page now shows 1,299.00, and at a row whose
  page shows no price.\<close>

theorem price_change_persisted_witness:
  "item1 \<in> set (db exampleWorld) \<and>
   fetchPrice exampleEnv (url item1) (site item1) = Inr \<lparr>price = Finite 129900, currencyText = ''$''\<rparr> \<and>
   \<not> falsy (Finite 129900) \<and> Finite 129900 \<noteq> last_price item1 \<and>
   fst (taskFunction exampleEnv item1 exampleWorld) = Inr () \<and>
   db (snd (taskFunction exampleEnv item1 exampleWorld)) =
     [item1\<lparr>last_price := Finite 129900, currency := ''$''\<rparr>, item2, item3] \<and>
   item4 \<in> set (db zeroWorld) \<and>
   fetchPrice exampleEnv (url item4) (site item4) = Inr \<lparr>price = Finite 0, currencyText = ''$''\<rparr> \<and>
   falsy (Finite 0) \<and>
   db (snd (taskFunction exampleEnv item4 zeroWorld)) = db zeroWorld"
proof -
  have m: "item1 \<in> set (db exampleWorld)" by (simp add: exampleWorld_def)
  have f: "fetchPrice exampleEnv (url item1) (site item1) =
             Inr \<lparr>price = Finite 129900, currencyText = ''$''\<rparr>"
    by (simp add: item1_def fetchPrice_u1)
  have m4: "item4 \<in> set (db zeroWorld)" by (simp add: zeroWorld_def)
  have f4: "fetchPrice exampleEnv (url item4) (site item4) =
             Inr \<lparr>price = Finite 0, currencyText = ''$''\<rparr>"
    by (simp add: item4_def fetchPrice_u0)
  have c: "\<not> falsy (Finite 129900) \<and> Finite 129900 \<noteq> last_price item1"
    by (simp add: falsy_def item1_def)
  have z: "falsy (Finite 0)" by (simp add: falsy_def)
  from price_change_persisted [OF m f] c
  have "fst (taskFunction exampleEnv item1 exampleWorld) = Inr () \<and>
        db (snd (taskFunction exampleEnv item1 exampleWorld)) =
          map (\<lambda>x. if row_id x = row_id item1
                    then x\<lparr>last_price := Finite 129900, currency := ''$''\<rparr> else x)
            (db exampleWorld)"
    by simp
  moreover have "map (\<lambda>x. if row_id x = row_id item1
                      then x\<lparr>last_price := Finite 129900, currency := ''$''\<rparr> else x)
             (db exampleWorld) =
           [item1\<lparr>last_price := Finite 129900, currency := ''$''\<rparr>, item2, item3]"
    by (simp add: exampleWorld_def item1_def item2_def item3_def)
  moreover from price_change_persisted [OF m4 f4] z
  have "db (snd (taskFunction exampleEnv item4 zeroWorld)) = db zeroWorld" by simp
  ultimately show ?thesis using m f m4 f4 c z by simp
qed

text \<open>
  The claim as first stated asks for a write also when the new price is 0. On a row priced
  100 whose page has no price element the reading is 0, it differs from 100, and the
  table is left as it was.
\<close>

theorem zero_price_not_persisted_counterexample:
  "item4 \<in> set (db zeroWorld) \<and>
   fetchPrice exampleEnv (url item4) (site item4) = Inr \<lparr>price = Finite 0, currencyText = ''$''\<rparr> \<and>
   Finite 0 \<noteq> last_price item4 \<and>
   db (snd (taskFunction exampleEnv item4 zeroWorld)) = db zeroWorld \<and>
   db zeroWorld = [item4] \<and> last_price item4 = Finite 100"
proof -
  have f4: "fetchPrice exampleEnv (url item4) (site item4) =
             Inr \<lparr>price = Finite 0, currencyText = ''$''\<rparr>"
    by (simp add: item4_def fetchPrice_u0)
  have "falsy (price \<lparr>price = Finite 0, currencyText = ''$''\<rparr>)" by (simp add: falsy_def)
  then have "db (snd (taskFunction exampleEnv item4 zeroWorld)) = db zeroWorld"
    using f4 by (simp add: taskFunction_no_change)
  then show ?thesis using f4 by (simp add: zeroWorld_def item4_def)
qed

text \<open>
  C2 (as amended). For an item of the watchlist and the reading fetched for it, the task
  sends one price-drop message to the item's chat, carrying the URL, the old currency
  and price and the new currency and price, exactly when the new price is a non-zero
  number strictly below the stored \<open>last_price\<close>; otherwise (a rise, an equal price, a
  zero or NaN price) it sends nothing. A rise to a non-zero price is written to the row
  and sends nothing.
\<close>
theorem notification_on_drop:
  assumes "it \<in> set (db w)" and "fetchPrice env (url it) (site it) = Inr rd"
  shows "sent (snd (taskFunction env it w)) =
           (if \<not> falsy (price rd) \<and> js_less (price rd) (last_price it)
            then sent w @ [(chat_id it, PriceDrop (url it) (currency it) (last_price it)
                                          (currencyText rd) (price rd))]
            else sent w) \<and>
         (\<not> falsy (price rd) \<and> js_less (last_price it) (price rd) \<longrightarrow>
            sent (snd (taskFunction env it w)) = sent w \<and>
            db (snd (taskFunction env it w)) =
              map (\<lambda>x. if row_id x = row_id it
                        then x\<lparr>last_price := price rd, currency := currencyText rd\<rparr>
                        else x) (db w))"
proof -
  have ids: "row_id it \<in> set (map row_id (db w))" using assms(1) by auto
  have ne: "js_less (price rd) (last_price it) \<Longrightarrow> \<not> strict_eq (price rd) (last_price it)"
    using js_less_irrefl [of "price rd"] by (auto simp: strict_eq_def)
  have 1: "sent (snd (taskFunction env it w)) =
           (if \<not> falsy (price rd) \<and> js_less (price rd) (last_price it)
            then sent w @ [(chat_id it, PriceDrop (url it) (currency it) (last_price it)
                                          (currencyText rd) (price rd))]
            else sent w)"
    using ids ne assms(2) by (auto simp add: taskFunction_sent taskNotes_def)
  have 2: "db (snd (taskFunction env it w)) =
              map (\<lambda>x. if row_id x = row_id it
                        then x\<lparr>last_price := price rd, currency := currencyText rd\<rparr>
                        else x) (db w)"
    if r: "\<not> falsy (price rd) \<and> js_less (last_price it) (price rd)"
  proof -
    from r have "\<not> strict_eq (price rd) (last_price it)"
      using js_less_irrefl [of "price rd"] by (auto simp: strict_eq_def)
    moreover from item_in_db_filter [OF assms(1)] obtain x xs
      where "filter (\<lambda>r. row_id r = row_id it) (db w) = x # xs" by blast
    ultimately show ?thesis
      using r assms(2) by (simp add: taskFunction_changed)
  qed
  show ?thesis
    using 1 2 js_less_asym [of "last_price it" "price rd"] by auto
qed

text \<open>The theorem at a drop from 200000 to 129900, which notifies, and at a rise from 5 to
  129900, which is written and does not notify.\<close>

theorem notification_on_drop_witness:
  "item1 \<in> set (db exampleWorld) \<and>
   fetchPrice exampleEnv (url item1) (site item1) = Inr \<lparr>price = Finite 129900, currencyText = ''$''\<rparr> \<and>
   sent (snd (taskFunction exampleEnv item1 exampleWorld)) =
     [(7, PriceDrop ''u1'' ''$'' (Finite 200000) ''$'' (Finite 129900))] \<and>
   item3 \<in> set (db exampleWorld) \<and>
   fetchPrice exampleEnv (url item3) (site item3) = Inr \<lparr>price = Finite 129900, currencyText = ''$''\<rparr> \<and>
   \<not> falsy (Finite 129900) \<and> js_less (last_price item3) (Finite 129900) \<and>
   sent (snd (taskFunction exampleEnv item3 exampleWorld)) = [] \<and>
   db (snd (taskFunction exampleEnv item3 exampleWorld)) =
     [item1, item2, item3\<lparr>last_price := Finite 129900, currency := ''$''\<rparr>]"
proof -
  have m: "item1 \<in> set (db exampleWorld)" by (simp add: exampleWorld_def)
  have f: "fetchPrice exampleEnv (url item1) (site item1) =
             Inr \<lparr>price = Finite 129900, currencyText = ''$''\<rparr>"
    by (simp add: item1_def fetchPrice_u1)
  have m3: "item3 \<in> set (db exampleWorld)" by (simp add: exampleWorld_def)
  have f3: "fetchPrice exampleEnv (url item3) (site item3) =
             Inr \<lparr>price = Finite 129900, currencyText = ''$''\<rparr>"
    by (simp add: item3_def fetchPrice_u1)
  have r3: "\<not> falsy (Finite 129900) \<and> js_less (last_price item3) (Finite 129900)"
    by (simp add: falsy_def item3_def)
  have s1: "sent (snd (taskFunction exampleEnv item1 exampleWorld)) =
     [(7, PriceDrop ''u1'' ''$'' (Finite 200000) ''$'' (Finite 129900))]"
    using notification_on_drop [OF m f, THEN conjunct1]
    by (simp add: falsy_def item1_def exampleWorld_def)
  from notification_on_drop [OF m3 f3, THEN conjunct2] r3
  have "sent (snd (taskFunction exampleEnv item3 exampleWorld)) = sent exampleWorld \<and>
        db (snd (taskFunction exampleEnv item3 exampleWorld)) =
          map (\<lambda>x. if row_id x = row_id item3
                    then x\<lparr>last_price := Finite 129900, currency := ''$''\<rparr> else x)
            (db exampleWorld)"
    by simp
  moreover have "map (\<lambda>x. if row_id x = row_id item3
                    then x\<lparr>last_price := Finite 129900, currency := ''$''\<rparr> else x)
            (db exampleWorld) =
          [item1, item2, item3\<lparr>last_price := Finite 129900, currency := ''$''\<rparr>]"
    by (simp add: exampleWorld_def item1_def item2_def item3_def)
  moreover have "sent exampleWorld = []" by (simp add: exampleWorld_def)
  ultimately show ?thesis using m f m3 f3 r3 s1 by simp
qed

text \<open>
  The claim as first stated notifies whenever the new price is strictly below the stored
  one. A reading of 0 against a stored 100 is strictly below, and nothing is sent.
\<close>

theorem drop_to_zero_not_notified_counterexample:
  "item4 \<in> set (db zeroWorld) \<and>
   fetchPrice exampleEnv (url item4) (site item4) = Inr \<lparr>price = Finite 0, currencyText = ''$''\<rparr> \<and>
   js_less (Finite 0) (last_price item4) \<and>
   sent (snd (taskFunction exampleEnv item4 zeroWorld)) = sent zeroWorld"
proof -
  have f4: "fetchPrice exampleEnv (url item4) (site item4) =
             Inr \<lparr>price = Finite 0, currencyText = ''$''\<rparr>"
    by (simp add: item4_def fetchPrice_u0)
  have "falsy (price \<lparr>price = Finite 0, currencyText = ''$''\<rparr>)" by (simp add: falsy_def)
  then have "sent (snd (taskFunction exampleEnv item4 zeroWorld)) = sent zeroWorld"
    using f4 by (simp add: taskFunction_no_change)
  then show ?thesis using f4 by (simp add: zeroWorld_def item4_def)
qed

text \<open>
  C9. When the price fetched for an item equals the stored \<open>last_price\<close>, the task writes
  nothing to the table and sends nothing. Hence, after a firing over a table with distinct
  row ids (the id is the primary key) in which no task raised and whose tasks have
  settled, a second firing over pages that have not changed leaves the table and the sent
  messages exactly as the first firing left them.
\<close>
theorem polling_idempotent:
  "(fetchPrice env (url it) (site it) = Inr rd \<and> price rd = last_price it \<longrightarrow>
      db (snd (taskFunction env it w)) = db w \<and> sent (snd (taskFunction env it w)) = sent w) \<and>
   (distinct (map row_id (db w)) \<and> fst (firing env w) = None \<longrightarrow>
      db (snd (firing env (snd (firing env w)))) = db (snd (firing env w)) \<and>
      sent (snd (firing env (snd (firing env w)))) = sent (snd (firing env w)))"
proof (intro conjI impI)
  assume a: "fetchPrice env (url it) (site it) = Inr rd \<and> price rd = last_price it"
  then have "falsy (price rd) \<or> strict_eq (price rd) (last_price it)"
    by (auto simp: falsy_def strict_eq_def)
  with a have t: "taskFunction env it w =
      (Inr (), w\<lparr>logged := logged w @ [CheckingPrice (url it), NoPriceChange (row_id it)]\<rparr>)"
    by (simp add: taskFunction_no_change)
  show "db (snd (taskFunction env it w)) = db w" by (simp add: t)
  show "sent (snd (taskFunction env it w)) = sent w" by (simp add: t)
next
  assume h: "distinct (map row_id (db w)) \<and> fst (firing env w) = None"
  let ?w1 = "snd (firing env w)"
  have d1: "db ?w1 = map (\<lambda>r. taskRow env r r) (db w)"
    using h by (simp add: firing_db)
  have q: "\<forall>it \<in> set (db ?w1). \<exists>rd. fetchPrice env (url it) (site it) = Inr rd \<and>
             (falsy (price rd) \<or> strict_eq (price rd) (last_price it))"
  proof
    fix x assume "x \<in> set (db ?w1)"
    then obtain r where r: "r \<in> set (db w)" and x: "x = taskRow env r r"
      unfolding d1 by auto
    from h r obtain rd where "fetchPrice env (url r) (site r) = Inr rd"
      using firing_fetched [of env w r] by auto
    from taskRow_quiet [OF this] show "\<exists>rd. fetchPrice env (url x) (site x) = Inr rd \<and>
             (falsy (price rd) \<or> strict_eq (price rd) (last_price x))"
      unfolding x by blast
  qed
  from firing_quiet [OF q]
  show "db (snd (firing env ?w1)) = db ?w1" and "sent (snd (firing env ?w1)) = sent ?w1"
    by simp_all
qed

text \<open>The theorem at a row whose stored price is the page's price, and at a table of two
  rows whose pages can be fetched and that the first firing changes.\<close>

theorem polling_idempotent_witness:
  "fetchPrice exampleEnv (url item5) (site item5) = Inr \<lparr>price = Finite 129900, currencyText = ''$''\<rparr> \<and>
   Finite 129900 = last_price item5 \<and>
   db (snd (taskFunction exampleEnv item5 stableWorld)) = db stableWorld \<and>
   sent (snd (taskFunction exampleEnv item5 stableWorld)) = sent stableWorld \<and>
   distinct (map row_id (db calmWorld)) \<and>
   fst (firing exampleEnv calmWorld) = None \<and>
   db (snd (firing exampleEnv calmWorld)) \<noteq> db calmWorld \<and>
   db (snd (firing exampleEnv (snd (firing exampleEnv calmWorld)))) =
     [item1\<lparr>last_price := Finite 129900, currency := ''$''\<rparr>,
      item3\<lparr>last_price := Finite 129900, currency := ''$''\<rparr>] \<and>
   sent (snd (firing exampleEnv (snd (firing exampleEnv calmWorld)))) =
     [(7, PriceDrop ''u1'' ''$'' (Finite 200000) ''$'' (Finite 129900))]"
proof -
  have f: "fetchPrice exampleEnv (url item5) (site item5) =
             Inr \<lparr>price = Finite 129900, currencyText = ''$''\<rparr>"
    by (simp add: item5_def fetchPrice_u1)
  have e: "Finite 129900 = last_price item5" by (simp add: item5_def)
  have a: "db (snd (taskFunction exampleEnv item5 stableWorld)) = db stableWorld \<and>
           sent (snd (taskFunction exampleEnv item5 stableWorld)) = sent stableWorld"
    using polling_idempotent [of exampleEnv item5 "\<lparr>price = Finite 129900, currencyText = ''$''\<rparr>"
                                 stableWorld, THEN conjunct1] f e
    by simp
  have b: "db (snd (firing exampleEnv (snd (firing exampleEnv calmWorld)))) =
             db (snd (firing exampleEnv calmWorld)) \<and>
           sent (snd (firing exampleEnv (snd (firing exampleEnv calmWorld)))) =
             sent (snd (firing exampleEnv calmWorld))"
    using polling_idempotent [of exampleEnv item5 "\<lparr>price = Finite 129900, currencyText = ''$''\<rparr>"
                                 calmWorld, THEN conjunct2]
      distinct_calmWorld firing_calmWorld_returns
    by simp
  have c: "db (snd (firing exampleEnv calmWorld)) \<noteq> db calmWorld"
    unfolding firing_calmWorld_db by (simp add: calmWorld_def item1_def)
  show ?thesis
    using f e a b c distinct_calmWorld firing_calmWorld_returns
    by (simp add: firing_calmWorld_db firing_calmWorld_sent)
qed

text \<open>
  C3. The claim asks that a failing item leaves the other items of the firing processed,
  the failure only logged and the process alive. On a table of three items of which the
  second cannot be fetched, the task of the second item logs the failure and raises
  again; nothing handles what it raises, the firing ends there with that error, and the
  third row keeps its old price although its own task would have written the new one.
\<close>
theorem firing_ends_at_failed_item:
  "db exampleWorld = [item1, item2, item3] \<and>
   fetchPrice exampleEnv (url item2) (site item2) = Inl FetchError \<and>
   fst (taskFunction exampleEnv item2 exampleWorld) = Inl SomethingWentWrong \<and>
   fst (firing exampleEnv exampleWorld) = Some SomethingWentWrong \<and>
   ErrorChecking ''u2'' FetchError \<in> set (logged (snd (firing exampleEnv exampleWorld))) \<and>
   db (snd (firing exampleEnv exampleWorld)) ! 2 = item3 \<and>
   db (snd (taskFunction exampleEnv item3 exampleWorld)) ! 2 =
     item3\<lparr>last_price := Finite 129900, currency := ''$''\<rparr>"
proof -
  have d: "db exampleWorld = [item1, item2, item3]" by (simp add: exampleWorld_def)
  have f1: "fetchPrice exampleEnv (url item1) (site item1) =
              Inr \<lparr>price = Finite 129900, currencyText = ''$''\<rparr>"
    by (simp add: item1_def fetchPrice_u1)
  have f2: "fetchPrice exampleEnv (url item2) (site item2) = Inl FetchError"
    by (simp add: item2_def fetchPrice_u2)
  have f3: "fetchPrice exampleEnv (url item3) (site item3) =
              Inr \<lparr>price = Finite 129900, currencyText = ''$''\<rparr>"
    by (simp add: item3_def fetchPrice_u1)
  let ?w0 = "exampleWorld\<lparr>logged := logged exampleWorld @
                [SchedulingPriceCheck, FoundItems (length (db exampleWorld))]\<rparr>"
  let ?w1 = "snd (taskFunction exampleEnv item1 ?w0)"
  let ?w2 = "?w1\<lparr>logged := logged ?w1 @ [CheckingPrice (url item2),
                                        ErrorChecking (url item2) FetchError]\<rparr>"
  have safe: "\<not> list_ex (\<lambda>r. unsafeInteger (last_price r)) (db exampleWorld)"
    by (simp add: d item1_def item2_def item3_def unsafeInteger_def)
  have fr: "firing exampleEnv exampleWorld = forEachTask exampleEnv [item1, item2, item3] ?w0"
    using safe by (simp add: firing_cases d)
  have e1: "fst (taskFunction exampleEnv item1 ?w0) = Inr ()"
    by (rule taskFunction_returns [OF f1]) (simp add: d)
  have t2: "taskFunction exampleEnv item2 ?w1 = (Inl SomethingWentWrong, ?w2)"
    by (rule taskFunction_fetch_failed [OF f2])
  have "forEachTask exampleEnv [item1, item2, item3] ?w0 =
          forEachTask exampleEnv [item2, item3] ?w1"
    by (rule forEachTask_returned [OF e1])
  also have "\<dots> = (Some SomethingWentWrong, ?w2)"
    using forEachTask_raised [of exampleEnv item2 ?w1 SomethingWentWrong "[item3]"]
    by (simp add: t2)
  finally have r: "firing exampleEnv exampleWorld = (Some SomethingWentWrong, ?w2)"
    by (simp only: fr)
  have r13: "taskRow exampleEnv item1 item3 = item3"
    by (rule taskRow_other) (simp add: item1_def item3_def)
  have "db ?w2 = map (taskRow exampleEnv item1) [item1, item2, item3]"
    by (simp add: taskFunction_db d)
  then have row3: "db ?w2 ! 2 = item3" by (simp add: r13)
  have lg: "ErrorChecking ''u2'' FetchError \<in> set (logged ?w2)"
    by (simp add: item2_def)
  have own: "db (snd (taskFunction exampleEnv item3 exampleWorld)) ! 2 =
               item3\<lparr>last_price := Finite 129900, currency := ''$''\<rparr>"
    using f3 by (simp add: taskFunction_db d taskRow_def item3_def falsy_def strict_eq_def)
  have raised: "fst (taskFunction exampleEnv item2 exampleWorld) = Inl SomethingWentWrong"
    by (rule taskFunction_raises [OF f2])
  show ?thesis
    unfolding r using d f2 raised row3 lg own by simp
qed

section \<open>Properties of extraction\<close>

text \<open>
  C6. The claim asks for the fixed fallback symbol as the currency label when no element
  matches the currency selector. On a page with a price element and no currency element
  \<open>getAmazonPrice\<close> returns the empty string: the variable is initialised to the fallback
  and then overwritten with the text of the first match without the test that guards the
  price.
\<close>
theorem missing_currency_gives_empty_text:
  "pageWithoutCurrency (''.'' @ currencyClass exampleSelector) = [] \<and>
   getAmazonPrice (Some exampleSelector) pageWithoutCurrency =
     Inr \<lparr>price = Finite 129900, currencyText = []\<rparr> \<and>
   fetchPrice exampleEnv ''u5'' ''amazon'' = Inr \<lparr>price = Finite 129900, currencyText = []\<rparr> \<and>
   defaultCurrency \<noteq> []"
  by (simp add: fetchPrice_def exampleEnv_def pipeline_def getAmazonPrice_def exampleSelector_def
      pageWithoutCurrency_def firstText_def stripSeparators_def parseFloat_129900
      defaultCurrency_def)

text \<open>
  C7 (as amended). For the registered site and every page whose first price-selector match
  has a text that is not empty once every \<open>,\<close> and \<open>.\<close> is removed, extraction returns as
  price what \<open>parseFloat\<close> reads from the text so stripped, and as currency the text of the
  first currency-selector match; the price text \<open>1,299.00\<close> yields 129900.
\<close>
theorem price_text_stripped_and_parsed:
  assumes "http env u = Some page" and "classSelectors env ''amazon'' = Some sel"
    and "stripSeparators (firstText page (''.'' @ priceClass sel)) \<noteq> []"
  shows "fetchPrice env u ''amazon'' =
           Inr \<lparr>price = parseFloat (stripSeparators (firstText page (''.'' @ priceClass sel))),
                currencyText = firstText page (''.'' @ currencyClass sel)\<rparr> \<and>
         (firstText page (''.'' @ priceClass sel) = ''1,299.00'' \<longrightarrow>
            map_sum id price (fetchPrice env u ''amazon'') = Inr (Finite 129900))"
proof -
  have 1: "fetchPrice env u ''amazon'' =
           Inr \<lparr>price = parseFloat (stripSeparators (firstText page (''.'' @ priceClass sel))),
                currencyText = firstText page (''.'' @ currencyClass sel)\<rparr>"
    using assms by (simp add: fetchPrice_def pipeline_def getAmazonPrice_def)
  have 2: "stripSeparators ''1,299.00'' = ''129900''" by (simp add: stripSeparators_def)
  show ?thesis unfolding 1 by (simp add: 2 parseFloat_129900)
qed

text \<open>The theorem at a page whose price element reads \<open>1,299.00\<close>.\<close>

theorem price_text_stripped_and_parsed_witness:
  "http exampleEnv ''u1'' = Some examplePage \<and>
   classSelectors exampleEnv ''amazon'' = Some exampleSelector \<and>
   firstText examplePage (''.'' @ priceClass exampleSelector) = ''1,299.00'' \<and>
   stripSeparators ''1,299.00'' = ''129900'' \<and>
   fetchPrice exampleEnv ''u1'' ''amazon'' = Inr \<lparr>price = Finite 129900, currencyText = ''$''\<rparr>"
proof -
  have h: "http exampleEnv ''u1'' = Some examplePage" by (simp add: exampleEnv_def)
  have c: "classSelectors exampleEnv ''amazon'' = Some exampleSelector" by (simp add: exampleEnv_def)
  have p: "firstText examplePage (''.'' @ priceClass exampleSelector) = ''1,299.00''"
    by (simp add: firstText_def examplePage_def exampleSelector_def)
  have q: "firstText examplePage (''.'' @ currencyClass exampleSelector) = ''$''"
    by (simp add: firstText_def examplePage_def exampleSelector_def)
  have s: "stripSeparators ''1,299.00'' = ''129900''" by (simp add: stripSeparators_def)
  have n: "stripSeparators (firstText examplePage (''.'' @ priceClass exampleSelector)) \<noteq> []"
    unfolding p s by simp
  from price_text_stripped_and_parsed [OF h c n]
  have "fetchPrice exampleEnv ''u1'' ''amazon'' =
          Inr \<lparr>price = parseFloat ''129900'', currencyText = ''$''\<rparr>"
    unfolding p q s by simp
  then show ?thesis using h c p s by (simp add: parseFloat_129900)
qed

text \<open>
  The claim as first stated takes every non-empty price text. The text \<open>.\<close> is not empty,
  nothing is left of it after stripping, and the price is the initial 0 where parsing the
  remainder gives NaN.
\<close>

theorem separator_only_price_counterexample:
  "firstText pageWithDotPrice (''.'' @ priceClass exampleSelector) = ''.'' \<and>
   fetchPrice exampleEnv ''u4'' ''amazon'' = Inr \<lparr>price = Finite 0, currencyText = ''$''\<rparr> \<and>
   parseFloat (stripSeparators ''.'') = NaN"
  by (simp add: fetchPrice_def exampleEnv_def pipeline_def getAmazonPrice_def exampleSelector_def
      pageWithDotPrice_def firstText_def stripSeparators_def parseFloat_def)

text \<open>
  C8. For every site identifier other than the one the switch of \<open>pipeline\<close> names,
  and every selector and page, the dispatch fails with the unsupported-site error; so
  \<open>fetchPrice\<close> for such a site never returns a reading, and fails with that error
  whenever the page could be fetched.
\<close>
theorem unsupported_site_fails:
  assumes "siteId \<noteq> ''amazon''"
  shows "pipeline siteId sel page = Inl UnsupportedSite \<and>
         (http env u = Some page \<longrightarrow> fetchPrice env u siteId = Inl UnsupportedSite) \<and>
         (\<forall>rd. fetchPrice env u siteId \<noteq> Inr rd)"
  using assms by (simp add: pipeline_def fetchPrice_def split: option.splits)

text \<open>The theorem at the site \<open>flipkart\<close>.\<close>

theorem unsupported_site_fails_witness:
  "''flipkart'' \<noteq> ''amazon'' \<and>
   pipeline ''flipkart'' (Some exampleSelector) examplePage = Inl UnsupportedSite \<and>
   http exampleEnv ''u1'' = Some examplePage \<and>
   fetchPrice exampleEnv ''u1'' ''flipkart'' = Inl UnsupportedSite"
proof -
  have n: "''flipkart'' \<noteq> ''amazon''" by simp
  have h: "http exampleEnv ''u1'' = Some examplePage" by (simp add: exampleEnv_def)
  show ?thesis
    using unsupported_site_fails [OF n, of "Some exampleSelector" examplePage exampleEnv "''u1''"] h
    by simp
qed

section \<open>The primary key\<close>

text \<open>The ids of the table are distinct in every state the operations can reach: an
  insertion takes an id above every id present, and updates and deletions invent none.\<close>

lemma foldr_max_ge: "x \<in> set xs \<Longrightarrow> x \<le> foldr max xs (b::nat)"
  by (induction xs) auto

lemma addToWatchlist_distinct:
  assumes "distinct (map row_id (db w))"
  shows "distinct (map row_id (db (snd (addToWatchlist c u s p cur w))))"
proof -
  have "Suc (foldr max (map row_id (db w)) (sequence w)) \<notin> set (map row_id (db w))"
    using foldr_max_ge [of "Suc (foldr max (map row_id (db w)) (sequence w))"
        "map row_id (db w)" "sequence w"]
    by auto
  with assms show ?thesis by (simp add: addToWatchlist_def Let_def)
qed

lemma updateWatchlist_distinct:
  "distinct (map row_id (db w)) \<Longrightarrow> distinct (map row_id (db (snd (updateWatchlist i p cur w))))"
  by (simp add: updateWatchlist_db comp_def if_distrib [of row_id] cong: if_cong)

lemma removeFromWatchlist_distinct:
  "distinct (map row_id (db w)) \<Longrightarrow> distinct (map row_id (db (snd (removeFromWatchlist c a w))))"
  by (simp add: removeFromWatchlist_def Let_def distinct_map_filter)

lemma clearAll_distinct:
  "distinct (map row_id (db w)) \<Longrightarrow> distinct (map row_id (db (snd (clearAll c w))))"
  by (simp add: clearAll_def Let_def distinct_map_filter)

lemma firing_distinct:
  "distinct (map row_id (db w)) \<Longrightarrow> distinct (map row_id (db (snd (firing env w))))"
  by (simp add: firing_ids)

section \<open>Properties of deletion\<close>

lemma idMatches_unique: "idMatches a i \<Longrightarrow> idMatches a j \<Longrightarrow> i = j"
  by (cases a) (simp_all add: idMatches_def)

lemma distinct_filter_le_one:
  assumes "distinct (map f xs)" and "\<And>x y. P x \<Longrightarrow> P y \<Longrightarrow> f x = f y"
  shows "length (filter P xs) \<le> 1"
  using assms(1)
proof (induction xs)
  case Nil
  then show ?case by simp
next
  case (Cons x xs)
  show ?case
  proof (cases "P x")
    case True
    have "filter P xs = []"
    proof (rule ccontr)
      assume "filter P xs \<noteq> []"
      then obtain y where y: "y \<in> set xs" "P y" by (auto simp: filter_empty_conv)
      with True assms(2) have "f x = f y" by blast
      with y(1) Cons.prems show False by auto
    qed
    with True show ?thesis by simp
  next
    case False
    with Cons show ?thesis by simp
  qed
qed

text \<open>
  C10. \<open>removeFromWatchlist owner a\<close> deletes exactly the rows whose \<open>chat_id\<close> is \<open>owner\<close> and
  whose id matches \<open>a\<close> (for a number, is equal to it) and returns how many they were, at
  most one when the ids of the table are distinct; \<open>clearAll owner\<close> deletes exactly the
  rows whose \<open>chat_id\<close> is \<open>owner\<close> and returns their number. Both leave the rows of every
  other owner as they were, in their order.
\<close>

theorem delete_only_own_rows:
  "fst (removeFromWatchlist owner a w) =
     Inr (length (filter (\<lambda>r. chat_id r = owner \<and> idMatches a (row_id r)) (db w))) \<and>
   db (snd (removeFromWatchlist owner a w)) =
     filter (\<lambda>r. \<not> (chat_id r = owner \<and> idMatches a (row_id r))) (db w) \<and>
   idMatches (IdNumber n) i = (i = n) \<and>
   (distinct (map row_id (db w)) \<longrightarrow>
      length (filter (\<lambda>r. chat_id r = owner \<and> idMatches a (row_id r)) (db w)) \<le> 1) \<and>
   fst (clearAll owner w) = Inr (length (filter (\<lambda>r. chat_id r = owner) (db w))) \<and>
   db (snd (clearAll owner w)) = filter (\<lambda>r. chat_id r \<noteq> owner) (db w) \<and>
   filter (\<lambda>r. chat_id r \<noteq> owner) (db (snd (removeFromWatchlist owner a w))) =
     filter (\<lambda>r. chat_id r \<noteq> owner) (db w) \<and>
   filter (\<lambda>r. chat_id r \<noteq> owner) (db (snd (clearAll owner w))) =
     filter (\<lambda>r. chat_id r \<noteq> owner) (db w)"
proof -
  have le: "distinct (map row_id (db w)) \<Longrightarrow>
      length (filter (\<lambda>r. chat_id r = owner \<and> idMatches a (row_id r)) (db w)) \<le> 1"
    by (rule distinct_filter_le_one [where f = row_id]) (auto dest: idMatches_unique)
  have f1: "filter (\<lambda>r. chat_id r \<noteq> owner)
              (filter (\<lambda>r. \<not> (chat_id r = owner \<and> idMatches a (row_id r))) (db w)) =
            filter (\<lambda>r. chat_id r \<noteq> owner) (db w)"
    by (induction "db w") (auto intro: filter_cong)
  show ?thesis
    using le f1
    by (simp add: removeFromWatchlist_def clearAll_def Let_def idMatches_def)
qed

text \<open>The theorem at a table of three rows, one of chat 7 and two of chat 8.\<close>

theorem delete_only_own_rows_witness:
  "distinct (map row_id (db exampleWorld)) \<and>
   db exampleWorld = [item1, item2, item3] \<and>
   fst (removeFromWatchlist 8 (IdNumber 2) exampleWorld) = Inr 1 \<and>
   db (snd (removeFromWatchlist 8 (IdNumber 2) exampleWorld)) = [item1, item3] \<and>
   fst (removeFromWatchlist 7 (IdNumber 2) exampleWorld) = Inr 0 \<and>
   db (snd (removeFromWatchlist 7 (IdNumber 2) exampleWorld)) = [item1, item2, item3] \<and>
   fst (clearAll 8 exampleWorld) = Inr 2 \<and>
   db (snd (clearAll 8 exampleWorld)) = [item1]"
proof -
  have d: "db exampleWorld = [item1, item2, item3]" by (simp add: exampleWorld_def)
  have c: "chat_id item1 = 7" "chat_id item2 = 8" "chat_id item3 = 8"
    "row_id item1 = 1" "row_id item2 = 2" "row_id item3 = 3"
    by (simp_all add: item1_def item2_def item3_def)
  note t8 = delete_only_own_rows [of 8 "IdNumber 2" exampleWorld 2 2]
  note t7 = delete_only_own_rows [of 7 "IdNumber 2" exampleWorld 2 2]
  show ?thesis
    using t8 t7 distinct_exampleWorld
    by (simp add: d c idMatches_def)
qed

section \<open>Properties of commands and sessions\<close>

lemma addCommand_fetch_failed:
  assumes "fetchPrice env u s = Inl e"
  shows "addCommand env c u s w = (Inl e, w\<lparr>sent := sent w @ [(c, FetchingPrice)]\<rparr>)"
  using assms by (simp add: addCommand_def io_defs)

lemma addCommand_nan:
  assumes "fetchPrice env u s = Inr rd" and "price rd = NaN"
  shows "addCommand env c u s w =
           (Inl DatabaseInsertionFailed,
            w\<lparr>sent := sent w @ [(c, FetchingPrice)],
              logged := logged w @ [SomethingWentWrongLog]\<rparr>)"
  using assms by (simp add: addCommand_def io_defs addToWatchlist_def)

lemma addCommand_ok:
  assumes "fetchPrice env u s = Inr rd" and "price rd \<noteq> NaN"
  shows "addCommand env c u s w =
           (Inr (),
            w\<lparr>db := db w @ [\<lparr>row_id = Suc (foldr max (map row_id (db w)) (sequence w)),
                               chat_id = c, url = u, site = s,
                               last_price = price rd, currency = currencyText rd\<rparr>],
              sequence := Suc (foldr max (map row_id (db w)) (sequence w)),
              logged := logged w @ [ItemAdded c],
              sent := sent w @ [(c, FetchingPrice), (c, ProductAdded (currencyText rd) (price rd))]\<rparr>)"
  using assms by (simp add: addCommand_def io_defs addToWatchlist_def Let_def)

lemma addCommand_userStates: "userStates (snd (addCommand env c u s w)) = userStates w"
proof (cases "fetchPrice env u s")
  case (Inl e)
  then show ?thesis by (simp add: addCommand_fetch_failed)
next
  case (Inr rd)
  then show ?thesis
    by (cases "price rd = NaN") (simp_all add: addCommand_nan addCommand_ok)
qed

lemma removeCommand_result:
  "fst (removeCommand c i w) = Inr () \<and> userStates (snd (removeCommand c i w)) = userStates w"
  by (simp add: removeCommand_def io_defs removeFromWatchlist_def Let_def)

text \<open>The two commands that open a session, and the steps they record; no other step is
  ever written to the session map.\<close>

lemma session_opened:
  "userStates (snd (addCommandWithUserState c w)) c = Some ''awaiting_site_url''"
  "userStates (snd (removeCommandWithUserState c w)) c = Some ''awaiting_remove''"
  by (simp_all add: addCommandWithUserState_def removeCommandWithUserState_def io_defs)

lemma handleAdd_userStates:
  "userStates (snd (handleUserStateForAddCommand env c msg w)) = userStates w"
  by (cases msg) (simp_all add: handleUserStateForAddCommand_def io_defs Let_def addCommand_userStates)

lemma handleRemove_userStates:
  "userStates (snd (handleUserStateForRemoveCommand c msg w)) = userStates w"
  by (cases msg) (simp_all add: handleUserStateForRemoveCommand_def io_defs removeCommand_result)

lemma pendingHandler_userStates:
  "userStates (snd (pendingHandler env c msg step w)) = userStates w"
  by (simp add: pendingHandler_def handleAdd_userStates handleRemove_userStates throw_def)

lemma listenToMessages_pending:
  assumes "userStates w c = Some step"
  shows "listenToMessages env c msg w =
           (case fst (pendingHandler env c msg step w) of
              Inl e \<Rightarrow> pendingHandler env c msg step w
            | Inr _ \<Rightarrow> (Inr (), w\<lparr>db := db (snd (pendingHandler env c msg step w)),
                                  sequence := sequence (snd (pendingHandler env c msg step w)),
                                  sent := sent (snd (pendingHandler env c msg step w)),
                                  logged := logged (snd (pendingHandler env c msg step w)),
                                  userStates := (userStates w)(c := None)\<rparr>))"
proof -
  obtain r w' where p: "pendingHandler env c msg step w = (r, w')"
    by (cases "pendingHandler env c msg step w")
  then have u: "userStates w' = userStates w"
    using pendingHandler_userStates [of env c msg step w] by simp
  have "listenToMessages env c msg w =
          bind (pendingHandler env c msg step)
            (\<lambda>_ w'. (Inr (), w'\<lparr>userStates := (userStates w')(c := None)\<rparr>)) w"
    using assms by (simp add: listenToMessages_def pendingHandler_def)
  also have "\<dots> = (case r of Inl e \<Rightarrow> (r, w')
                     | Inr _ \<Rightarrow> (Inr (), w'\<lparr>userStates := (userStates w)(c := None)\<rparr>))"
    by (cases r) (simp_all add: bind_def p u)
  finally show ?thesis by (cases r) (simp_all add: p u [symmetric])
qed

text \<open>
  C4 (as amended). For an owner with a pending session, the next inbound message deletes
  the session exactly when its handling returns without raising, and touches the session
  of no other owner. The handling returns, and the session is deleted, for every text
  without a separator sent while the add payload is awaited (the format error is sent and
  nothing else) and for every text sent while a remove id is awaited. When the triggered
  flow raises, the session stays.
\<close>
theorem session_consumed_when_handled:
  assumes "userStates w c = Some step"
  shows "(userStates (snd (listenToMessages env c msg w)) c = None \<longleftrightarrow>
            fst (listenToMessages env c msg w) = Inr ()) \<and>
         (\<forall>c'. c' \<noteq> c \<longrightarrow> userStates (snd (listenToMessages env c msg w)) c' = userStates w c') \<and>
         (step = ''awaiting_site_url'' \<longrightarrow> msg = Some t \<longrightarrow>
            length (split_on (CHR ''-'') (trim t)) < 2 \<longrightarrow>
            fst (listenToMessages env c msg w) = Inr () \<and>
            sent (snd (listenToMessages env c msg w)) = sent w @ [(c, InvalidMessageFormat)]) \<and>
         (step = ''awaiting_remove'' \<longrightarrow> msg = Some t \<longrightarrow>
            fst (listenToMessages env c msg w) = Inr ())"
proof -
  note l = listenToMessages_pending [OF assms, of env msg]
  have 1: "userStates (snd (listenToMessages env c msg w)) c = None \<longleftrightarrow>
            fst (listenToMessages env c msg w) = Inr ()"
    unfolding l using assms pendingHandler_userStates [of env c msg step w]
    by (cases "pendingHandler env c msg step w"; cases "fst (pendingHandler env c msg step w)") auto
  have 2: "\<forall>c'. c' \<noteq> c \<longrightarrow> userStates (snd (listenToMessages env c msg w)) c' = userStates w c'"
    unfolding l using pendingHandler_userStates [of env c msg step w]
    by (cases "fst (pendingHandler env c msg step w)") simp_all
  have 3: "step = ''awaiting_site_url'' \<longrightarrow> msg = Some t \<longrightarrow>
            length (split_on (CHR ''-'') (trim t)) < 2 \<longrightarrow>
            fst (listenToMessages env c msg w) = Inr () \<and>
            sent (snd (listenToMessages env c msg w)) = sent w @ [(c, InvalidMessageFormat)]"
    unfolding l
    by (simp add: pendingHandler_def handleUserStateForAddCommand_def io_defs Let_def)
  have 4: "step = ''awaiting_remove'' \<longrightarrow> msg = Some t \<longrightarrow>
            fst (listenToMessages env c msg w) = Inr ()"
    unfolding l
    by (simp add: pendingHandler_def handleUserStateForRemoveCommand_def removeCommand_result)
  from 1 2 3 4 show ?thesis by blast
qed


lemma sessionWorld_simps:
  "userStates sessionWorld 7 = Some ''awaiting_site_url''"
  "userStates sessionWorld 8 = Some ''awaiting_remove''"
  "sent sessionWorld = []" "db sessionWorld = [item1, item2, item3]"
  by (simp_all add: sessionWorld_def exampleWorld_def)

text \<open>The theorem at a malformed add payload of chat 7 and at a remove id of chat 8.\<close>

theorem session_consumed_when_handled_witness:
  "userStates sessionWorld 7 = Some ''awaiting_site_url'' \<and>
   length (split_on (CHR ''-'') (trim ''amazon'')) < 2 \<and>
   fst (listenToMessages exampleEnv 7 (Some ''amazon'') sessionWorld) = Inr () \<and>
   sent (snd (listenToMessages exampleEnv 7 (Some ''amazon'') sessionWorld)) =
     [(7, InvalidMessageFormat)] \<and>
   userStates (snd (listenToMessages exampleEnv 7 (Some ''amazon'') sessionWorld)) 7 = None \<and>
   userStates (snd (listenToMessages exampleEnv 7 (Some ''amazon'') sessionWorld)) 8 =
     Some ''awaiting_remove'' \<and>
   userStates sessionWorld 8 = Some ''awaiting_remove'' \<and>
   fst (listenToMessages exampleEnv 8 (Some ''2'') sessionWorld) = Inr () \<and>
   userStates (snd (listenToMessages exampleEnv 8 (Some ''2'') sessionWorld)) 8 = None"
proof -
  have m: "length (split_on (CHR ''-'') (trim ''amazon'')) < 2"
    by (simp add: trim_def isWhiteSpace_def)
  note a = session_consumed_when_handled [OF sessionWorld_simps(1),
      of exampleEnv "Some ''amazon''" "''amazon''"]
  note r = session_consumed_when_handled [OF sessionWorld_simps(2),
      of exampleEnv "Some ''2''" "''2''"]
  have a1: "fst (listenToMessages exampleEnv 7 (Some ''amazon'') sessionWorld) = Inr ()"
    and a2: "sent (snd (listenToMessages exampleEnv 7 (Some ''amazon'') sessionWorld)) =
              [(7, InvalidMessageFormat)]"
    using a m by (simp_all add: sessionWorld_simps)
  have a3: "userStates (snd (listenToMessages exampleEnv 7 (Some ''amazon'') sessionWorld)) 7 = None"
    using a a1 by blast
  have a4: "userStates (snd (listenToMessages exampleEnv 7 (Some ''amazon'') sessionWorld)) 8 =
              Some ''awaiting_remove''"
    using a sessionWorld_simps(2) by simp
  have r1: "fst (listenToMessages exampleEnv 8 (Some ''2'') sessionWorld) = Inr ()"
    using r by simp
  have r2: "userStates (snd (listenToMessages exampleEnv 8 (Some ''2'') sessionWorld)) 8 = None"
    using r r1 by blast
  show ?thesis using m a1 a2 a3 a4 r1 r2 sessionWorld_simps(1,2) by simp
qed

lemma trim_u1_flipkart:
  "split_on (CHR ''-'') (trim ''u1 - flipkart'') = [''u1 '', '' flipkart'']"
  "trim ''u1 '' = ''u1''" "trim '' flipkart'' = ''flipkart''"
  by (simp_all add: trim_def isWhiteSpace_def)

text \<open>
  The claim as first stated deletes the session also when the triggered flow fails. Chat 7
  awaits the add payload and sends \<open>u1 - flipkart\<close>: the page is fetched, the site is
  unsupported, the error leaves \<open>listenToMessages\<close> before the deletion, and the session is
  still pending.
\<close>

theorem failed_add_keeps_session_counterexample:
  "userStates sessionWorld 7 = Some ''awaiting_site_url'' \<and>
   fst (listenToMessages exampleEnv 7 (Some ''u1 - flipkart'') sessionWorld) = Inl UnsupportedSite \<and>
   userStates (snd (listenToMessages exampleEnv 7 (Some ''u1 - flipkart'') sessionWorld)) 7 =
     Some ''awaiting_site_url''"
proof -
  have f: "fetchPrice exampleEnv ''u1'' ''flipkart'' = Inl UnsupportedSite"
    by (simp add: fetchPrice_def exampleEnv_def pipeline_def)
  have h: "pendingHandler exampleEnv 7 (Some ''u1 - flipkart'') ''awaiting_site_url'' sessionWorld =
           (Inl UnsupportedSite, sessionWorld\<lparr>sent := sent sessionWorld @ [(7, FetchingPrice)]\<rparr>)"
    by (simp add: pendingHandler_def handleUserStateForAddCommand_def Let_def trim_u1_flipkart
        addCommand_fetch_failed [OF f])
  show ?thesis
    unfolding listenToMessages_pending [OF sessionWorld_simps(1)] h
    by (simp add: sessionWorld_simps)
qed






end
